theory Spec2Isabelle
  imports Main
begin

section \<open>Strings, numbers and errors of the host language\<close>

text \<open>
  The program is TypeScript: the authenticator (\<open>auth.ts\<close>) and the client of the notes
  API (\<open>sap-notes-api.ts\<close>), both in \<open>src/unnamed/part_009\<close>, whose line numbers the
  text below cites, and the tool handlers of \<open>src/src/mcp-server-official.ts\<close>. A thrown
  value is an instance of \<open>Error\<close> or of one of the subclasses that \<open>auth.ts\<close>
  declares; every function that can throw returns a sum, \<open>Inl\<close> holding the thrown
  value. Strings are lists of 8-bit code units.
\<close>

datatype error =
    Error string
  | TypeError string
  | RangeError string
  | BrowserNotFoundError string
  | CertificateLoadError string error
  | AuthenticationTimeoutError nat
  | AuthenticationError string error

definition bindE :: "error + 'a \<Rightarrow> ('a \<Rightarrow> error + 'b) \<Rightarrow> error + 'b" where
  "bindE m f = (case m of Inl e \<Rightarrow> Inl e | Inr x \<Rightarrow> f x)"

definition digitChar :: "nat \<Rightarrow> char" where
  "digitChar n = ''0123456789'' ! n"

function showNat :: "nat \<Rightarrow> string" where
  "showNat n = (if n < 10 then [digitChar n] else showNat (n div 10) @ [digitChar (n mod 10)])"
  by pat_completeness auto
termination
  by (relation "measure id") auto

definition padStart :: "nat \<Rightarrow> string \<Rightarrow> string" where
  "padStart k s = replicate (k - length s) CHR ''0'' @ s"

fun startsWith :: "string \<Rightarrow> string \<Rightarrow> bool" where
  "startsWith s [] = True"
| "startsWith [] (c # cs) = False"
| "startsWith (x # xs) (c # cs) = (x = c \<and> startsWith xs cs)"

fun strIncludes :: "string \<Rightarrow> string \<Rightarrow> bool" where
  "strIncludes [] t = (t = [])"
| "strIncludes (x # xs) t = (startsWith (x # xs) t \<or> strIncludes xs t)"

definition isDigit :: "char \<Rightarrow> bool" where
  "isDigit c = (c \<in> set ''0123456789'')"

text \<open>\<open>s.match(/\d{6,8}/)?.[0]\<close>: the leftmost run of at least six digits, at most
  eight of them taken.\<close>

fun matchDigits68 :: "string \<Rightarrow> string option" where
  "matchDigits68 [] = None"
| "matchDigits68 (c # cs) =
     (let run = takeWhile isDigit (c # cs)
      in if 6 \<le> length run then Some (take 8 run) else matchDigits68 cs)"

text \<open>\<open>error instanceof Error ? error.message : String(error)\<close>; every thrown value
  of the model is an \<open>Error\<close>, so this is its message.\<close>

fun message :: "error \<Rightarrow> string" where
  "message (Error m) = m"
| "message (TypeError m) = m"
| "message (RangeError m) = m"
| "message (BrowserNotFoundError browserType) = ''Browser '' @ browserType @ '' not found''"
| "message (CertificateLoadError certPath originalError) =
     ''Failed to load certificate from '' @ certPath @ '': '' @ message originalError"
| "message (AuthenticationTimeoutError timeoutMs) =
     ''Authentication timed out after '' @ showNat timeoutMs @ ''ms''"
| "message (AuthenticationError m originalError) = m"

section \<open>JSON values\<close>

text \<open>
  What \<open>JSON.parse\<close> and \<open>response.json()\<close> return, typed \<open>any\<close> in the source,
  plus \<open>undefined\<close> for a property that is not there. Numbers are integral (epoch
  milliseconds, counts).
\<close>

datatype jsval =
    JUndefined
  | JNull
  | JBool bool
  | JNum int
  | JStr string
  | JArr "jsval list"
  | JObj "(string \<times> jsval) list"

fun truthy :: "jsval \<Rightarrow> bool" where
  "truthy JUndefined = False"
| "truthy JNull = False"
| "truthy (JBool b) = b"
| "truthy (JNum n) = (n \<noteq> 0)"
| "truthy (JStr s) = (s \<noteq> [])"
| "truthy (JArr xs) = True"
| "truthy (JObj fs) = True"

fun nullish :: "jsval \<Rightarrow> bool" where
  "nullish JUndefined = True"
| "nullish JNull = True"
| "nullish v = False"

text \<open>\<open>x.k\<close> for the property names the program reads (none of them a built-in
  property of strings, numbers or arrays): a \<open>TypeError\<close> on \<open>null\<close> and
  \<open>undefined\<close>, the last entry of that key for an object, \<open>undefined\<close> otherwise.\<close>

fun getProp :: "jsval \<Rightarrow> string \<Rightarrow> error + jsval" where
  "getProp JUndefined k =
     Inl (TypeError (''Cannot read properties of undefined (reading '' @ [CHR 0x27] @ k @ [CHR 0x27] @ '')''))"
| "getProp JNull k =
     Inl (TypeError (''Cannot read properties of null (reading '' @ [CHR 0x27] @ k @ [CHR 0x27] @ '')''))"
| "getProp (JObj fs) k = Inr (case map_of (rev fs) k of Some v \<Rightarrow> v | None \<Rightarrow> JUndefined)"
| "getProp v k = Inr JUndefined"

text \<open>\<open>x?.k\<close>\<close>

fun optProp :: "jsval \<Rightarrow> string \<Rightarrow> jsval" where
  "optProp (JObj fs) k = (case map_of (rev fs) k of Some v \<Rightarrow> v | None \<Rightarrow> JUndefined)"
| "optProp v k = JUndefined"

text \<open>\<open>a || b\<close> where \<open>b\<close> cannot throw.\<close>

definition jsOr :: "jsval \<Rightarrow> jsval \<Rightarrow> jsval" where
  "jsOr a b = (if truthy a then a else b)"

fun joinWith :: "string \<Rightarrow> string list \<Rightarrow> string" where
  "joinWith sep [] = []"
| "joinWith sep [s] = s"
| "joinWith sep (s # t # ss) = s @ sep @ joinWith sep (t # ss)"

text \<open>
  \<open>Number::toString\<close> for a number that is an integer. A number is a binary64 value:
  \<open>roundToDouble\<close> is the value nearest to a natural number, ties going to the even
  significand; a value of more than 1024 bits stands for \<open>Infinity\<close>. The digits
  printed are those of the shortest decimal that reads back as the same value, of the
  nearer one when two are as short; they are written out in full up to 21 digits and in
  exponent form beyond.
\<close>

function bitLength :: "nat \<Rightarrow> nat" where
  "bitLength n = (if n = 0 then 0 else Suc (bitLength (n div 2)))"
  by pat_completeness auto
termination
  by (relation "measure id") auto

definition roundToDouble :: "nat \<Rightarrow> nat" where
  "roundToDouble m =
     (if bitLength m \<le> 53 then m
      else (let sh = bitLength m - 53;
                q = m div 2 ^ sh;
                r = m mod 2 ^ sh;
                half = 2 ^ (sh - 1)
            in (if half < r \<or> (r = half \<and> odd q) then q + 1 else q) * 2 ^ sh))"

text \<open>The decimals with \<open>j\<close> fewer digits than \<open>d\<close> on either side of \<open>d\<close>, tried from
  the shortest.\<close>

fun shortestDecimal :: "nat \<Rightarrow> nat \<Rightarrow> nat" where
  "shortestDecimal d 0 = d"
| "shortestDecimal d (Suc j) =
     (let p = 10 ^ Suc j;
          lo = (d div p) * p;
          hi = lo + p
      in if roundToDouble lo = d \<and> roundToDouble hi = d
         then (if d - lo < hi - d then lo
               else if hi - d < d - lo then hi
               else if even (d div p) then lo else hi)
         else if roundToDouble lo = d then lo
         else if roundToDouble hi = d then hi
         else shortestDecimal d j)"

definition numberToString :: "int \<Rightarrow> string" where
  "numberToString i =
     (let d = roundToDouble (nat \<bar>i\<bar>);
          sign = (if i < 0 then ''-'' else [])
      in if 1024 < bitLength d then sign @ ''Infinity''
         else if d = 0 then ''0''
         else (let digits = showNat (shortestDecimal d (length (showNat d) - 1));
                   n = length digits;
                   s = rev (dropWhile (\<lambda>c. c = CHR ''0'') (rev digits))
               in sign @ (if n \<le> 21 then digits
                          else (if length s = 1 then s else hd s # CHR ''.'' # tl s)
                               @ ''e+'' @ showNat (n - 1))))"

text \<open>The string a template literal \<open>${v}\<close> inserts.\<close>

fun toStringJS :: "jsval \<Rightarrow> string" where
  "toStringJS JUndefined = ''undefined''"
| "toStringJS JNull = ''null''"
| "toStringJS (JBool b) = (if b then ''true'' else ''false'')"
| "toStringJS (JNum n) = numberToString n"
| "toStringJS (JStr s) = s"
| "toStringJS (JArr xs) = joinWith '','' (map (\<lambda>x. if nullish x then [] else toStringJS x) xs)"
| "toStringJS (JObj fs) = ''[object Object]''"

text \<open>\<open>v?.match(/\d{6,8}/)?.[0]\<close>: only a string has a \<open>match\<close> method to call.\<close>

fun optMatch68 :: "jsval \<Rightarrow> error + jsval" where
  "optMatch68 JUndefined = Inr JUndefined"
| "optMatch68 JNull = Inr JUndefined"
| "optMatch68 (JStr s) = Inr (case matchDigits68 s of Some m \<Rightarrow> JStr m | None \<Rightarrow> JUndefined)"
| "optMatch68 v = Inl (TypeError ''match is not a function'')"

text \<open>\<open>v?.substring(0, 60)\<close> inside a log line: evaluated whatever the log level.\<close>

fun optSubstring :: "jsval \<Rightarrow> nat \<Rightarrow> error + jsval" where
  "optSubstring JUndefined n = Inr JUndefined"
| "optSubstring JNull n = Inr JUndefined"
| "optSubstring (JStr s) n = Inr (JStr (take n s))"
| "optSubstring v n = Inl (TypeError ''substring is not a function'')"

section \<open>Dates: \<open>new Date(v).toISOString().split('T')[0]\<close>\<close>

definition msPerDay :: int where
  "msPerDay = 86400000"

definition maxTime :: int where
  "maxTime = 8640000000000000"

text \<open>TimeClip: a time value beyond 100,000,000 days from the epoch is NaN.\<close>

definition timeClip :: "int \<Rightarrow> int option" where
  "timeClip t = (if \<bar>t\<bar> \<le> maxTime then Some t else None)"

text \<open>Year, month and day of the proleptic Gregorian calendar for a day number
  counted from 1970-01-01.\<close>

definition civilFromDays :: "int \<Rightarrow> int \<times> int \<times> int" where
  "civilFromDays days =
     (let z = days + 719468;
          era = z div 146097;
          doe = z - era * 146097;
          yoe = (doe - doe div 1460 + doe div 36524 - doe div 146096) div 365;
          y = yoe + era * 400;
          doy = doe - (365 * yoe + yoe div 4 - yoe div 100);
          mp = (5 * doy + 2) div 153;
          d = doy - (153 * mp + 2) div 5 + 1;
          m = (if mp < 10 then mp + 3 else mp - 9)
      in (if m \<le> 2 then y + 1 else y, m, d))"

definition isoYear :: "int \<Rightarrow> string" where
  "isoYear y =
     (if 0 \<le> y \<and> y \<le> 9999 then padStart 4 (showNat (nat y))
      else (if y < 0 then CHR ''-'' else CHR ''+'') # padStart 6 (showNat (nat \<bar>y\<bar>)))"

definition isoDate :: "int \<Rightarrow> string" where
  "isoDate t =
     (case civilFromDays (t div msPerDay) of
        (y, m, d) \<Rightarrow> isoYear y @ ''-'' @ padStart 2 (showNat (nat m)) @ ''-'' @ padStart 2 (showNat (nat d)))"

text \<open>The time value of \<open>new Date(v)\<close> for a truthy JSON value. \<open>Date.parse\<close> is the
  parameter \<open>dateParse\<close> (\<open>None\<close> is NaN).\<close>

fun timeValue :: "(string \<Rightarrow> int option) \<Rightarrow> jsval \<Rightarrow> int option" where
  "timeValue dateParse (JNum n) = timeClip n"
| "timeValue dateParse (JBool b) = Some (if b then 1 else 0)"
| "timeValue dateParse (JStr s) = (case dateParse s of None \<Rightarrow> None | Some t \<Rightarrow> timeClip t)"
| "timeValue dateParse JNull = Some 0"
| "timeValue dateParse JUndefined = None"
| "timeValue dateParse v = (case dateParse (toStringJS v) of None \<Rightarrow> None | Some t \<Rightarrow> timeClip t)"

definition toISODate :: "(string \<Rightarrow> int option) \<Rightarrow> jsval \<Rightarrow> error + string" where
  "toISODate dateParse v =
     (case timeValue dateParse v of
        None \<Rightarrow> Inl (RangeError ''Invalid time value'')
      | Some t \<Rightarrow> Inr (isoDate t))"

section \<open>\<open>SapNotesApiClient.parseCoveoResponse\<close>\<close>

record SapNoteResult =
  r_id :: jsval
  r_title :: jsval
  r_summary :: jsval
  r_language :: jsval
  r_releaseDate :: jsval
  r_component :: jsval
  r_url :: jsval

text \<open>The note identifier of a hit: \<open>raw.mh_id\<close>, else 6 to 8 digits out of
  \<open>raw.permanentid\<close>, else out of the title, else \<open>'unknown'\<close>.\<close>

definition coveoNoteId :: "jsval \<Rightarrow> error + jsval" where
  "coveoNoteId item =
     bindE (getProp item ''raw'') (\<lambda>raw.
       if truthy (optProp raw ''mh_id'') then Inr (optProp raw ''mh_id'')
       else bindE (optMatch68 (optProp raw ''permanentid'')) (\<lambda>m1.
         if truthy m1 then Inr m1
         else bindE (optMatch68 (optProp item ''title'')) (\<lambda>m2.
           if truthy m2 then Inr m2 else Inr (JStr ''unknown''))))"

definition firstOrSelf :: "jsval \<Rightarrow> jsval \<Rightarrow> jsval" where
  "firstOrSelf arr dflt =
     (case arr of
        JArr xs \<Rightarrow> (case xs of [] \<Rightarrow> JUndefined | x # _ \<Rightarrow> x)
      | _ \<Rightarrow> jsOr arr dflt)"

definition parseCoveoItem :: "(string \<Rightarrow> int option) \<Rightarrow> jsval \<Rightarrow> error + SapNoteResult" where
  "parseCoveoItem dateParse item =
     bindE (coveoNoteId item) (\<lambda>noteId.
       let raw = optProp item ''raw'';
           languageArray = jsOr (optProp raw ''language'') (jsOr (optProp raw ''syslanguage'') (JArr []));
           language = firstOrSelf languageArray (JStr ''EN'');
           componentArray = jsOr (optProp raw ''mh_app_component'')
                              (jsOr (optProp raw ''mh_all_hierarchical_component'') (JArr []));
           component = (case componentArray of
                          JArr xs \<Rightarrow> (case xs of [] \<Rightarrow> JUndefined | x # _ \<Rightarrow> x)
                        | _ \<Rightarrow> componentArray)
       in bindE (if truthy (optProp raw ''date'')
                 then map_sum id JStr (toISODate dateParse (optProp raw ''date''))
                 else Inr (JStr ''Unknown'')) (\<lambda>releaseDate.
            let result = \<lparr> r_id = noteId,
                           r_title = jsOr (optProp item ''title'') (JStr ''Unknown Title''),
                           r_summary = jsOr (optProp item ''excerpt'')
                                         (jsOr (optProp raw ''mh_description'') (JStr ''No summary available'')),
                           r_language = language,
                           r_releaseDate = releaseDate,
                           r_component = component,
                           r_url = jsOr (optProp raw ''mh_alt_url'')
                                     (jsOr (optProp item ''clickUri'')
                                        (JStr (''https://launchpad.support.sap.com/#/notes/'' @ toStringJS noteId))) \<rparr>
            in bindE (optSubstring (optProp item ''title'') 60) (\<lambda>_. Inr result)))"

text \<open>The loop over \<open>data.results\<close>: an item whose parsing throws is logged and left
  out.\<close>

fun parseCoveoItems :: "(string \<Rightarrow> int option) \<Rightarrow> jsval list \<Rightarrow> SapNoteResult list" where
  "parseCoveoItems dateParse [] = []"
| "parseCoveoItems dateParse (item # items) =
     (case parseCoveoItem dateParse item of
        Inl err \<Rightarrow> parseCoveoItems dateParse items
      | Inr result \<Rightarrow> result # parseCoveoItems dateParse items)"

definition parseCoveoResponse :: "(string \<Rightarrow> int option) \<Rightarrow> jsval \<Rightarrow> error + SapNoteResult list" where
  "parseCoveoResponse dateParse data =
     bindE (getProp data ''results'') (\<lambda>results.
       case results of
         JArr items \<Rightarrow> Inr (parseCoveoItems dateParse items)
       | _ \<Rightarrow> Inr [])"

section \<open>Detail retrieval: the parsers\<close>

record SapNoteDetail =
  d_id :: jsval
  d_title :: jsval
  d_summary :: jsval
  d_content :: jsval
  d_language :: jsval
  d_releaseDate :: jsval
  d_component :: jsval
  d_priority :: jsval
  d_category :: jsval
  d_url :: jsval

text \<open>Regular expressions of \<open>parseHtmlForNoteDetail\<close>. The flag \<open>i\<close> folds the case of
  ASCII letters; \<open>.\<close> stops at a line terminator; \<open>\s\<close> and \<open>trim\<close> share one set of
  white space.\<close>

definition lowerAscii :: "char \<Rightarrow> char" where
  "lowerAscii c =
     (case map_of (zip ''ABCDEFGHIJKLMNOPQRSTUVWXYZ'' ''abcdefghijklmnopqrstuvwxyz'') c of
        Some l \<Rightarrow> l
      | None \<Rightarrow> c)"

definition ciStartsWith :: "string \<Rightarrow> string \<Rightarrow> bool" where
  "ciStartsWith s pat = startsWith (map lowerAscii s) pat"

definition isLineTerminator :: "char \<Rightarrow> bool" where
  "isLineTerminator c = (c = CHR 0x0A \<or> c = CHR 0x0D)"

definition isSpace :: "char \<Rightarrow> bool" where
  "isSpace c = (c \<in> set [CHR 0x09, CHR 0x0A, CHR 0x0B, CHR 0x0C, CHR 0x0D, CHR 0x20, CHR 0xA0])"

text \<open>\<open>(.*?)<\/title>\<close> from the position after an opening tag: the shortest run
  without a line terminator that a closing tag follows.\<close>

fun lazyUntilClose :: "string \<Rightarrow> string option" where
  "lazyUntilClose [] = None"
| "lazyUntilClose (c # cs) =
     (if ciStartsWith (c # cs) ''</title>'' then Some []
      else if isLineTerminator c then None
      else map_option (Cons c) (lazyUntilClose cs))"

text \<open>\<open>html.match(/<title>(.*?)<\/title>/i)\<close>: the capture group of the leftmost
  match.\<close>

fun titleMatch :: "string \<Rightarrow> string option" where
  "titleMatch [] = None"
| "titleMatch (c # cs) =
     (if ciStartsWith (c # cs) ''<title>''
      then (case lazyUntilClose (drop 7 (c # cs)) of
              Some captured \<Rightarrow> Some captured
            | None \<Rightarrow> titleMatch cs)
      else titleMatch cs)"

text \<open>\<open>s.replace(/SAP\s*-?\s*/i, '')\<close>: the first match is cut out.\<close>

fun replaceSap :: "string \<Rightarrow> string" where
  "replaceSap [] = []"
| "replaceSap (c # cs) =
     (if ciStartsWith (c # cs) ''sap''
      then (let r1 = dropWhile isSpace (drop 3 (c # cs));
                r2 = (case r1 of [] \<Rightarrow> r1 | x # r \<Rightarrow> if x = CHR ''-'' then r else r1)
            in dropWhile isSpace r2)
      else c # replaceSap cs)"

definition trim :: "string \<Rightarrow> string" where
  "trim s = rev (dropWhile isSpace (rev (dropWhile isSpace s)))"

definition noteUrl :: "string \<Rightarrow> jsval" where
  "noteUrl noteId = JStr (''https://launchpad.support.sap.com/#/notes/'' @ noteId)"

definition parseHtmlForNoteDetail :: "string \<Rightarrow> string \<Rightarrow> SapNoteDetail option" where
  "parseHtmlForNoteDetail html noteId =
     (let title = (case titleMatch html of
                     Some captured \<Rightarrow> trim (replaceSap captured)
                   | None \<Rightarrow> ''SAP Note '' @ noteId)
      in Some \<lparr> d_id = JStr noteId,
                d_title = JStr title,
                d_summary = JStr ''SAP Note details available at the provided URL'',
                d_content = JStr ''Please visit the URL for complete note content'',
                d_language = JStr ''EN'',
                d_releaseDate = JStr ''Unknown'',
                d_component = JUndefined,
                d_priority = JUndefined,
                d_category = JUndefined,
                d_url = noteUrl noteId \<rparr>)"

text \<open>\<open>a.k1 || a.k2 || ... || dflt\<close> on a value that is not \<open>null\<close> or \<open>undefined\<close>.\<close>

fun firstTruthy :: "jsval \<Rightarrow> string list \<Rightarrow> jsval \<Rightarrow> jsval" where
  "firstTruthy v [] dflt = dflt"
| "firstTruthy v (k # ks) dflt = (if truthy (optProp v k) then optProp v k else firstTruthy v ks dflt)"

text \<open>The same chain with no default: its value is the last operand when none is
  truthy.\<close>

fun firstTruthyOrLast :: "jsval \<Rightarrow> string list \<Rightarrow> jsval" where
  "firstTruthyOrLast v [] = JUndefined"
| "firstTruthyOrLast v [k] = optProp v k"
| "firstTruthyOrLast v (k # ks) = (if truthy (optProp v k) then optProp v k else firstTruthyOrLast v ks)"

definition mapToSapNoteDetail :: "jsval \<Rightarrow> string \<Rightarrow> SapNoteDetail" where
  "mapToSapNoteDetail item noteId =
     \<lparr> d_id = firstTruthy item [''SapNote'', ''Id'', ''id''] (JStr noteId),
       d_title = firstTruthy item [''Title'', ''title''] (JStr ''Unknown Title''),
       d_summary = firstTruthy item [''Summary'', ''summary'', ''Description''] (JStr ''No summary available''),
       d_content = firstTruthy item [''Content'', ''content'', ''Text'', ''summary''] (JStr ''Content not available''),
       d_language = firstTruthy item [''Language'', ''language''] (JStr ''EN''),
       d_releaseDate = firstTruthy item [''ReleaseDate'', ''releaseDate'', ''CreationDate''] (JStr ''Unknown''),
       d_component = firstTruthyOrLast item [''Component'', ''component''],
       d_priority = firstTruthyOrLast item [''Priority'', ''priority''],
       d_category = firstTruthyOrLast item [''Category'', ''category''],
       d_url = noteUrl noteId \<rparr>"

text \<open>A \<open>fetch\<close> response: its status, and what \<open>response.text()\<close> gives.
  \<open>response.ok\<close> is a status from 200 to 299. \<open>JSON.parse\<close> is the parameter
  \<open>jsonParse\<close> (\<open>None\<close>: it throws a SyntaxError).\<close>

record response =
  status :: nat
  bodyText :: "error + string"
  bodyJson :: "error + jsval"

definition ok :: "response \<Rightarrow> bool" where
  "ok r = (200 \<le> status r \<and> status r \<le> 299)"

definition parseNoteResponse ::
  "(string \<Rightarrow> jsval option) \<Rightarrow> response \<Rightarrow> string \<Rightarrow> error + SapNoteDetail option" where
  "parseNoteResponse jsonParse resp noteId =
     bindE (bodyText resp) (\<lambda>responseText.
       case jsonParse responseText of
         None \<Rightarrow> Inr (parseHtmlForNoteDetail responseText noteId)
       | Some jsonData \<Rightarrow>
           (case getProp jsonData ''d'' of
              Inl typeError \<Rightarrow> Inr (parseHtmlForNoteDetail responseText noteId)
            | Inr d \<Rightarrow>
                if truthy d then Inr (Some (mapToSapNoteDetail d noteId))
                else Inr (parseHtmlForNoteDetail responseText noteId)))"

text \<open>\<open>noteId.match(/^\d{6,8}$/)\<close>\<close>

definition isNoteNumber :: "string \<Rightarrow> bool" where
  "isNoteNumber noteId = (6 \<le> length noteId \<and> length noteId \<le> 8 \<and> list_all isDigit noteId)"

definition redirectNote :: "string \<Rightarrow> SapNoteDetail" where
  "redirectNote noteId =
     \<lparr> d_id = JStr noteId,
       d_title = JStr (''SAP Note '' @ noteId),
       d_summary = JStr ''Note found via raw API - full content requires browser access'',
       d_content = JStr (''This SAP Note exists but its content requires browser navigation to access.''
          @ [CHR 0x0A, CHR 0x0A] @ ''To view the complete note content:'' @ [CHR 0x0A]
          @ ''1. Visit: https://launchpad.support.sap.com/#/notes/'' @ noteId @ [CHR 0x0A]
          @ ''2. Or access through: https://me.sap.com with your SAP credentials''
          @ [CHR 0x0A, CHR 0x0A]
          @ ''The note was successfully located but content extraction requires additional authentication steps.''),
       d_language = JStr ''EN'',
       d_releaseDate = JStr ''Unknown'',
       d_component = JUndefined,
       d_priority = JUndefined,
       d_category = JUndefined,
       d_url = noteUrl noteId \<rparr>"

definition rawJsonNote :: "jsval \<Rightarrow> string \<Rightarrow> SapNoteDetail" where
  "rawJsonNote jsonData noteId =
     \<lparr> d_id = firstTruthy jsonData [''SapNote'', ''id'', ''noteId''] (JStr noteId),
       d_title = firstTruthy jsonData [''Title'', ''title'', ''ShortText''] (JStr (''SAP Note '' @ noteId)),
       d_summary = firstTruthy jsonData [''Summary'', ''summary'', ''Abstract'', ''abstract''] (JStr ''SAP Note details''),
       d_content = firstTruthy jsonData [''Content'', ''content'', ''Text'', ''LongText'', ''Html'']
                     (JStr ''Note content available at URL''),
       d_language = firstTruthy jsonData [''Language'', ''language''] (JStr ''EN''),
       d_releaseDate = firstTruthy jsonData [''ReleaseDate'', ''releaseDate'', ''CreationDate''] (JStr ''Unknown''),
       d_component = firstTruthyOrLast jsonData [''Component'', ''component''],
       d_priority = firstTruthyOrLast jsonData [''Priority'', ''priority''],
       d_category = firstTruthyOrLast jsonData [''Category'', ''category'', ''Type''],
       d_url = noteUrl noteId \<rparr>"

definition parseRawNoteDetail ::
  "(string \<Rightarrow> jsval option) \<Rightarrow> response \<Rightarrow> string \<Rightarrow> error + SapNoteDetail option" where
  "parseRawNoteDetail jsonParse resp noteId =
     bindE (bodyText resp) (\<lambda>responseText.
       let viaMarkup =
             (if (strIncludes responseText ''fragmentAfterLogin'' \<or> strIncludes responseText ''document.cookie'')
                 \<and> noteId \<noteq> [] \<and> isNoteNumber noteId
              then Some (redirectNote noteId)
              else parseHtmlForNoteDetail responseText noteId)
       in case jsonParse responseText of
            None \<Rightarrow> Inr viaMarkup
          | Some jsonData \<Rightarrow>
              if truthy jsonData \<and> truthy (firstTruthyOrLast jsonData [''SapNote'', ''id'', ''noteId''])
              then Inr (Some (rawJsonNote jsonData noteId))
              else Inr viaMarkup)"

section \<open>Detail retrieval: \<open>SapNotesApiClient.getNote\<close>\<close>

text \<open>
  What the vendor and the browser answer is the environment: \<open>httpGet url cookie\<close> is
  the outcome of \<open>fetch\<close> (a thrown network error or a response), and \<open>playwrightNote\<close>
  is the outcome of \<open>getNoteWithPlaywright\<close>, the browser-driven strategy. Each request
  the client issues is written to a trace.
\<close>

record detailEnv =
  playwrightNote :: "string \<Rightarrow> string \<Rightarrow> error + SapNoteDetail option"
  httpGet :: "string \<Rightarrow> string \<Rightarrow> error + response"
  jsonParse :: "string \<Rightarrow> jsval option"

datatype request =
    Playwright string
  | HttpGet string

definition baseUrl :: string where
  "baseUrl = ''https://launchpad.support.sap.com''"

definition rawNotesUrl :: string where
  "rawNotesUrl = ''https://me.sap.com/backend/raw/sapnotes''"

definition httpError :: "response \<Rightarrow> error + 'a" where
  "httpError resp =
     (case bodyText resp of
        Inl e \<Rightarrow> Inl e
      | Inr errorText \<Rightarrow> Inl (Error (''HTTP '' @ showNat (status resp) @ '': '' @ take 200 errorText)))"

definition makeRequest :: "detailEnv \<Rightarrow> string \<Rightarrow> string \<Rightarrow> error + response" where
  "makeRequest env endpoint sapToken =
     bindE (httpGet env (baseUrl @ endpoint) sapToken) (\<lambda>resp.
       if \<not> ok resp \<and> status resp \<noteq> 404 then httpError resp else Inr resp)"

definition makeRawRequest :: "detailEnv \<Rightarrow> string \<Rightarrow> string \<Rightarrow> error + response" where
  "makeRawRequest env endpoint sapToken =
     bindE (httpGet env (rawNotesUrl @ endpoint) sapToken) (\<lambda>resp.
       if \<not> ok resp \<and> status resp \<noteq> 404 \<and> status resp \<noteq> 302 \<and> status resp \<noteq> 301
       then httpError resp else Inr resp)"

definition rawEndpoint :: "string \<Rightarrow> string" where
  "rawEndpoint noteId = ''/Detail?q='' @ noteId @ ''&t=E&isVTEnabled=false''"

text \<open>Strategy 2, the body of the second inner \<open>try\<close>: \<open>Inl\<close> is what its \<open>catch\<close>
  receives, \<open>Inr None\<close> is falling through without a note.\<close>

definition rawHttpStrategy :: "detailEnv \<Rightarrow> string \<Rightarrow> string \<Rightarrow> error + SapNoteDetail option" where
  "rawHttpStrategy env noteId sapToken =
     bindE (makeRawRequest env (rawEndpoint noteId) sapToken) (\<lambda>rawResponse.
       if ok rawResponse then parseRawNoteDetail (jsonParse env) rawResponse noteId
       else Inr None)"

definition fallbackEndpoints :: "string \<Rightarrow> string list" where
  "fallbackEndpoints noteId =
     [''/services/odata/svt/snogwscorr/Notes('' @ [CHR 0x27] @ noteId @ [CHR 0x27] @ '')?$format=json'',
      ''/services/odata/svt/snogwscorr/KnowledgeBaseEntries?$filter=SapNote eq '' @ [CHR 0x27] @ noteId
         @ [CHR 0x27] @ ''&$format=json'',
      ''/support/notes/'' @ noteId]"

text \<open>Strategy 3 for one endpoint, the body of the \<open>try\<close> inside the loop.\<close>

definition endpointStrategy ::
  "detailEnv \<Rightarrow> string \<Rightarrow> string \<Rightarrow> string \<Rightarrow> error + SapNoteDetail option" where
  "endpointStrategy env endpoint noteId sapToken =
     bindE (makeRequest env endpoint sapToken) (\<lambda>resp. parseNoteResponse (jsonParse env) resp noteId)"

fun fallbackLoop ::
  "detailEnv \<Rightarrow> string list \<Rightarrow> string \<Rightarrow> string \<Rightarrow> (error + SapNoteDetail option) \<times> request list" where
  "fallbackLoop env [] noteId sapToken = (Inr None, [])"
| "fallbackLoop env (endpoint # endpoints) noteId sapToken =
     (case endpointStrategy env endpoint noteId sapToken of
        Inr (Some note) \<Rightarrow> (Inr (Some note), [HttpGet (baseUrl @ endpoint)])
      | _ \<Rightarrow> (case fallbackLoop env endpoints noteId sapToken of
                (r, reqs) \<Rightarrow> (r, HttpGet (baseUrl @ endpoint) # reqs)))"

text \<open>The outer \<open>try\<close> of \<open>getNote\<close>: the three strategies in order, each inner
  \<open>catch\<close> logging the error and going on.\<close>

definition getNoteStrategies ::
  "detailEnv \<Rightarrow> string \<Rightarrow> string \<Rightarrow> (error + SapNoteDetail option) \<times> request list" where
  "getNoteStrategies env noteId sapToken =
     (case playwrightNote env noteId sapToken of
        Inr (Some note) \<Rightarrow> (Inr (Some note), [Playwright noteId])
      | _ \<Rightarrow>
        (case rawHttpStrategy env noteId sapToken of
           Inr (Some note) \<Rightarrow>
             (Inr (Some note), [Playwright noteId, HttpGet (rawNotesUrl @ rawEndpoint noteId)])
         | _ \<Rightarrow>
           (case fallbackLoop env (fallbackEndpoints noteId) noteId sapToken of
              (r, reqs) \<Rightarrow> (r, [Playwright noteId, HttpGet (rawNotesUrl @ rawEndpoint noteId)] @ reqs))))"

text \<open>\<open>getNote\<close> with its outer \<open>catch\<close>, which wraps whatever reaches it.\<close>

definition getNote ::
  "detailEnv \<Rightarrow> string \<Rightarrow> string \<Rightarrow> (error + SapNoteDetail option) \<times> request list" where
  "getNote env noteId sapToken =
     (case getNoteStrategies env noteId sapToken of
        (Inl e, reqs) \<Rightarrow> (Inl (Error (''Failed to get SAP Note '' @ noteId @ '': '' @ message e)), reqs)
      | (Inr note, reqs) \<Rightarrow> (Inr note, reqs))"

subsection \<open>Sample environments\<close>

text \<open>Three vendors to run \<open>getNote\<close> against: one where every request fails, one that
  answers 404 to every request, one where the browser-driven strategy finds the note.\<close>

definition failingEnv :: detailEnv where
  "failingEnv =
     \<lparr> playwrightNote = (\<lambda>noteId sapToken. Inl (Error ''Playwright extraction failed: HTTP 500: Failed to load page'')),
       httpGet = (\<lambda>url sapToken. Inl (TypeError ''fetch failed'')),
       jsonParse = (\<lambda>s. None) \<rparr>"

definition notFoundEnv :: detailEnv where
  "notFoundEnv =
     \<lparr> playwrightNote = (\<lambda>noteId sapToken. Inr None),
       httpGet = (\<lambda>url sapToken. Inr \<lparr> status = 404, bodyText = Inr ''Not Found'', bodyJson = Inl (Error ''Unexpected token'') \<rparr>),
       jsonParse = (\<lambda>s. None) \<rparr>"

definition sampleNote :: SapNoteDetail where
  "sampleNote = rawJsonNote (JObj [(''SapNote'', JStr ''2744792''), (''Title'', JStr ''Sample'')]) ''2744792''"

definition playwrightEnv :: detailEnv where
  "playwrightEnv =
     \<lparr> playwrightNote = (\<lambda>noteId sapToken. Inr (Some sampleNote)),
       httpGet = (\<lambda>url sapToken. Inl (TypeError ''fetch failed'')),
       jsonParse = (\<lambda>s. None) \<rparr>"

text \<open>A vendor whose raw endpoint answers with the page that redirects to the login,
  while the browser-driven strategy fails.\<close>

definition redirectEnv :: detailEnv where
  "redirectEnv =
     \<lparr> playwrightNote = (\<lambda>noteId sapToken. Inl (Error ''Playwright extraction failed: browser not installed'')),
       httpGet = (\<lambda>url sapToken. Inr \<lparr> status = 200,
                    bodyText = Inr ''<script>document.cookie = 1;</script>'',
                    bodyJson = Inl (Error ''Unexpected token'') \<rparr>),
       jsonParse = (\<lambda>s. None) \<rparr>"

section \<open>Token derivation: \<open>SapNotesApiClient.getCoveoToken\<close>\<close>

text \<open>
  The client keeps one browser and one browser context between calls. A handle is a
  number that the browser library hands out; \<open>None\<close> is \<open>null\<close>.
\<close>

record SapNotesApiClient =
  browser :: "nat option"
  browserContext :: "nat option"
  browserLastUsed :: int

definition BROWSER_IDLE_TIMEOUT :: int where
  "BROWSER_IDLE_TIMEOUT = 5 * 60 * 1000"

definition newClient :: SapNotesApiClient where
  "newClient = \<lparr> browser = None, browserContext = None, browserLastUsed = 0 \<rparr>"

text \<open>
  What the clock, the browser library and the vendor answer during one call of
  \<open>getCoveoToken\<close>, in the order the call asks: \<open>seedCookies\<close> is the outcome of reading
  the cached cookies and adding them to the new context (\<open>Some e\<close>: \<open>addCookies\<close> threw);
  \<open>loginRedirect\<close> says whether, after the navigation to the home page, a response came
  from an authentication URL or the page URL is one; \<open>networkToken\<close> is the bearer token
  the request listener captured, \<open>pageToken\<close> the token \<open>page.evaluate\<close> found.
\<close>

record tokenEnv =
  dateNow :: int
  isConnected :: bool
  launch :: "error + nat"
  newContext :: "error + nat"
  seedCookies :: "error option"
  newPage :: "error + nat option"
  loginRedirect :: bool
  settleWait :: "error option"
  searchGoto :: "error option"
  searchWait :: "error option"
  networkToken :: "string option"
  pageToken :: "error + string option"

datatype effect =
    EnsureAuthenticated
  | Launch
  | NewContext nat nat
  | CloseBrowser nat
  | OpenPage nat nat
  | ClosePage nat
  | Navigate nat string
  | CoveoPost string nat string

text \<open>Lines 843 to 849: an idle browser is closed first.\<close>

definition closeIdle :: "tokenEnv \<Rightarrow> SapNotesApiClient \<Rightarrow> SapNotesApiClient \<times> effect list" where
  "closeIdle env c =
     (case browser c of
        None \<Rightarrow> (c, [])
      | Some b \<Rightarrow>
          if dateNow env - browserLastUsed c > BROWSER_IDLE_TIMEOUT
          then (c\<lparr> browser := None, browserContext := None \<rparr>, [CloseBrowser b])
          else (c, []))"

text \<open>Lines 852 to 889: a new browser and context unless the kept browser is there and
  connected. The first component is the error thrown, if any.\<close>

definition openSession ::
  "tokenEnv \<Rightarrow> SapNotesApiClient \<Rightarrow> error option \<times> SapNotesApiClient \<times> effect list" where
  "openSession env c =
     (if browser c = None \<or> \<not> isConnected env
      then (case launch env of
              Inl e \<Rightarrow> (Some e, c, [Launch])
            | Inr b \<Rightarrow>
                (case newContext env of
                   Inl e \<Rightarrow> (Some e, c\<lparr> browser := Some b \<rparr>, [Launch])
                 | Inr x \<Rightarrow>
                     (seedCookies env, c\<lparr> browser := Some b, browserContext := Some x \<rparr>,
                      [Launch, NewContext b x])))
      else (None, c, []))"

definition homeUrl :: string where
  "homeUrl = ''https://me.sap.com/home''"

text \<open>\<open>encodeURIComponent\<close>: a code unit outside the unreserved set is written as the
  bytes of its UTF-8 encoding, each as \<open>%\<close> and two hexadecimal digits.\<close>

definition hexDigit :: "nat \<Rightarrow> char" where
  "hexDigit n = ''0123456789ABCDEF'' ! n"

definition percentByte :: "nat \<Rightarrow> string" where
  "percentByte b = [CHR ''%'', hexDigit (b div 16), hexDigit (b mod 16)]"

definition uriUnreserved :: "char \<Rightarrow> bool" where
  "uriUnreserved c =
     (c \<in> set ''ABCDEFGHIJKLMNOPQRSTUVWXYZabcdefghijklmnopqrstuvwxyz0123456789-_.!~*'()'')"

definition encodeURIComponent :: "string \<Rightarrow> string" where
  "encodeURIComponent s =
     concat (map (\<lambda>c. if uriUnreserved c then [c]
                      else if of_char c < (128 :: nat) then percentByte (of_char c)
                      else percentByte (192 + of_char c div 64) @ percentByte (128 + of_char c mod 64)) s)"

text \<open>Lines 950 to 957: what \<open>JSON.stringify\<close> gives for the object literal
  \<open>{ q: 'test', tab: 'Support', f: { documenttype: ['SAP Note'] } }\<close>, and the address
  of the search page made from it.\<close>

definition searchParams :: string where
  \<open>searchParams = ''{"q":"test","tab":"Support","f":{"documenttype":["SAP Note"]}}''\<close>

definition searchPageUrl :: string where
  "searchPageUrl = ''https://me.sap.com/knowledge/search/'' @ encodeURIComponent searchParams"

text \<open>Lines 898 to 1041, on the page \<open>p\<close>: the navigation to the home page (an error of
  which is caught), the check for a login redirect, the navigation to the search page,
  the token from the network or from the page.\<close>

definition deriveToken :: "tokenEnv \<Rightarrow> nat \<Rightarrow> (error + string) \<times> effect list" where
  "deriveToken env p =
     (if loginRedirect env
      then (Inl (Error ''Session expired - authentication required. Run test:auth to refresh credentials.''),
            [Navigate p homeUrl])
      else (case settleWait env of
              Some e \<Rightarrow> (Inl e, [Navigate p homeUrl])
            | None \<Rightarrow>
               (case searchGoto env of
                  Some e \<Rightarrow> (Inl (Error (''Failed to load SAP search page: '' @ message e)),
                             [Navigate p homeUrl, Navigate p searchPageUrl])
                | None \<Rightarrow>
                   (case searchWait env of
                      Some e \<Rightarrow> (Inl e, [Navigate p homeUrl, Navigate p searchPageUrl])
                    | None \<Rightarrow>
                       (let found =
                              (case networkToken env of
                                 Some t \<Rightarrow> if t \<noteq> [] then Inr (Some t) else pageToken env
                               | None \<Rightarrow> pageToken env)
                        in (case found of
                              Inl e \<Rightarrow> Inl e
                            | Inr None \<Rightarrow> Inl (Error ''Unable to extract Coveo token from SAP search page'')
                            | Inr (Some t) \<Rightarrow>
                                if t \<noteq> [] then Inr t
                                else Inl (Error ''Unable to extract Coveo token from SAP search page''),
                            [Navigate p homeUrl, Navigate p searchPageUrl]))))))"

text \<open>The \<open>try\<close> block: the result, the client, the page if one was opened, the
  effects.\<close>

definition getCoveoTokenBody ::
  "tokenEnv \<Rightarrow> SapNotesApiClient \<Rightarrow> (error + string) \<times> SapNotesApiClient \<times> nat option \<times> effect list" where
  "getCoveoTokenBody env c =
     (case closeIdle env c of
        (c1, ef1) \<Rightarrow>
          (case openSession env c1 of
             (Some e, c2, ef2) \<Rightarrow> (Inl e, c2, None, ef1 @ ef2)
           | (None, c2, ef2) \<Rightarrow>
               (let c3 = c2\<lparr> browserLastUsed := dateNow env \<rparr>
                in case browserContext c3 of
                     None \<Rightarrow> (Inl (TypeError ''Cannot read properties of null (reading 'newPage')''),
                               c3, None, ef1 @ ef2)
                   | Some x \<Rightarrow>
                       (case newPage env of
                          Inl e \<Rightarrow> (Inl e, c3, None, ef1 @ ef2)
                        | Inr None \<Rightarrow> (Inl (Error ''Failed to create browser page''), c3, None, ef1 @ ef2)
                        | Inr (Some p) \<Rightarrow>
                            (case deriveToken env p of
                               (r, ef3) \<Rightarrow> (r, c3, Some p, ef1 @ ef2 @ [OpenPage x p] @ ef3))))))"

text \<open>The \<open>catch\<close> and the \<open>finally\<close>: an error whose message holds \<open>Session expired\<close>
  closes the kept browser and is replaced by \<open>SESSION_EXPIRED\<close>, any other error is
  wrapped; the page is closed last. Errors of closing are ignored.\<close>

definition getCoveoToken ::
  "tokenEnv \<Rightarrow> string \<Rightarrow> SapNotesApiClient \<Rightarrow> (error + string) \<times> SapNotesApiClient \<times> effect list" where
  "getCoveoToken env sapToken c =
     (case getCoveoTokenBody env c of
        (r, c1, openedPage, ef) \<Rightarrow>
          (let closePage = (case openedPage of Some p \<Rightarrow> [ClosePage p] | None \<Rightarrow> [])
           in case r of
                Inr coveoToken \<Rightarrow> (Inr coveoToken, c1, ef @ closePage)
              | Inl e \<Rightarrow>
                  if strIncludes (message e) ''Session expired''
                  then (case browser c1 of
                          Some b \<Rightarrow> (Inl (Error ''SESSION_EXPIRED''),
                                     c1\<lparr> browser := None, browserContext := None \<rparr>,
                                     ef @ [CloseBrowser b] @ closePage)
                        | None \<Rightarrow> (Inl (Error ''SESSION_EXPIRED''), c1, ef @ closePage))
                  else (Inl (Error (''Failed to get Coveo bearer token: '' @ message e)), c1,
                        ef @ closePage)))"

text \<open>The client never holds a context without a browser.\<close>

definition clientInv :: "SapNotesApiClient \<Rightarrow> bool" where
  "clientInv c = (browser c \<noteq> None \<or> browserContext c = None)"

section \<open>Search: \<open>SapNotesApiClient.searchNotes\<close> and the tool \<open>sap_note_search\<close>\<close>

text \<open>\<open>coveoPost query maxResults bearer cookie\<close> is the outcome of the \<open>fetch\<close> to the
  search API.\<close>

record searchEnv =
  derivation :: tokenEnv
  coveoPost :: "string \<Rightarrow> nat \<Rightarrow> string \<Rightarrow> string \<Rightarrow> error + response"
  parseDate :: "string \<Rightarrow> int option"

record SapNoteSearchResponse =
  results :: "SapNoteResult list"
  totalResults :: jsval
  query :: string

definition searchFailed :: "error \<Rightarrow> error" where
  "searchFailed e = Error (''SAP Notes search failed: '' @ message e)"

definition searchNotes ::
  "searchEnv \<Rightarrow> string \<Rightarrow> string \<Rightarrow> nat \<Rightarrow> SapNotesApiClient
     \<Rightarrow> (error + SapNoteSearchResponse) \<times> SapNotesApiClient \<times> effect list" where
  "searchNotes env q sapToken maxResults c =
     (case getCoveoToken (derivation env) sapToken c of
        (Inl e, c1, ef) \<Rightarrow> (Inl (searchFailed e), c1, ef)
      | (Inr coveoToken, c1, ef) \<Rightarrow>
          (map_sum searchFailed id
             (bindE (coveoPost env q maxResults coveoToken sapToken) (\<lambda>resp.
                if \<not> ok resp
                then bindE (bodyText resp) (\<lambda>errorText.
                       Inl (Error (''Coveo API returned '' @ showNat (status resp) @ '': '' @ take 100 errorText)))
                else bindE (bodyJson resp) (\<lambda>data.
                       bindE (getProp data ''totalCount'') (\<lambda>totalCount.
                         bindE (parseCoveoResponse (parseDate env) data) (\<lambda>parsed.
                           Inr \<lparr> results = parsed,
                                 totalResults = jsOr totalCount (JNum (int (length parsed))),
                                 query = q \<rparr>))))),
           c1, ef @ [CoveoPost q maxResults coveoToken]))"

text \<open>
  The tool of \<open>mcp-server-official.ts\<close>. Its input schema is
  \<open>{ q: z.string(), lang: z.enum(['EN', 'DE']).default('EN') }\<close>: the arguments are an
  object, \<open>q\<close> is a string, \<open>lang\<close> is \<open>EN\<close>, \<open>DE\<close> or left out. The handler runs only
  on arguments that the schema accepts.
\<close>

definition validateSearchArgs :: "jsval \<Rightarrow> error + string \<times> string" where
  "validateSearchArgs args =
     (case args of
        JObj fs \<Rightarrow>
          (case optProp args ''q'' of
             JStr q \<Rightarrow>
               (case optProp args ''lang'' of
                  JUndefined \<Rightarrow> Inr (q, ''EN'')
                | JStr l \<Rightarrow> if l = ''EN'' \<or> l = ''DE'' then Inr (q, l)
                            else Inl (Error ''Invalid arguments: lang'')
                | _ \<Rightarrow> Inl (Error ''Invalid arguments: lang''))
           | _ \<Rightarrow> Inl (Error ''Invalid arguments: q''))
      | _ \<Rightarrow> Inl (Error ''Invalid arguments''))"

record handlerEnv =
  ensureAuthenticatedResult :: "error + string"
  searching :: searchEnv

datatype toolResult =
    InvalidParams error
  | ToolError string
  | InvalidOutput
  | ToolOk SapNoteSearchResponse

text \<open>The structured output: \<open>component: note.component || null\<close>, the other fields as
  they are.\<close>

definition searchOutput :: "SapNoteSearchResponse \<Rightarrow> SapNoteSearchResponse" where
  "searchOutput r = r\<lparr> results := map (\<lambda>note. note\<lparr> r_component := jsOr (r_component note) JNull \<rparr>) (results r) \<rparr>"

text \<open>The output schema of the tool, against which the server checks the structured
  content of a result that is not an error: \<open>totalResults\<close> is a number, \<open>query\<close> a
  string, and of each note \<open>component\<close> is a string or \<open>null\<close>, every other field a
  string. A result that fails the check is answered with an error in place of the
  result.\<close>

fun isString :: "jsval \<Rightarrow> bool" where
  "isString (JStr s) = True"
| "isString v = False"

fun isNumber :: "jsval \<Rightarrow> bool" where
  "isNumber (JNum n) = True"
| "isNumber v = False"

definition validNoteOutput :: "SapNoteResult \<Rightarrow> bool" where
  "validNoteOutput note =
     (isString (r_id note) \<and> isString (r_title note) \<and> isString (r_summary note)
      \<and> (isString (r_component note) \<or> r_component note = JNull)
      \<and> isString (r_releaseDate note) \<and> isString (r_language note) \<and> isString (r_url note))"

definition validSearchOutput :: "SapNoteSearchResponse \<Rightarrow> bool" where
  "validSearchOutput r = (isNumber (totalResults r) \<and> list_all validNoteOutput (results r))"

definition sap_note_search ::
  "handlerEnv \<Rightarrow> jsval \<Rightarrow> SapNotesApiClient \<Rightarrow> toolResult \<times> SapNotesApiClient \<times> effect list" where
  "sap_note_search env args c =
     (case validateSearchArgs args of
        Inl e \<Rightarrow> (InvalidParams e, c, [])
      | Inr (q, lang) \<Rightarrow>
          (case ensureAuthenticatedResult env of
             Inl e \<Rightarrow> (ToolError (''Search failed: '' @ message e), c, [EnsureAuthenticated])
           | Inr sapToken \<Rightarrow>
               (case searchNotes (searching env) q sapToken 10 c of
                  (Inl e, c1, ef) \<Rightarrow> (ToolError (''Search failed: '' @ message e), c1, EnsureAuthenticated # ef)
                | (Inr r, c1, ef) \<Rightarrow>
                    (if validSearchOutput (searchOutput r) then ToolOk (searchOutput r) else InvalidOutput,
                     c1, EnsureAuthenticated # ef))))"

subsection \<open>Sample environments\<close>

text \<open>A vendor session that works (the token is seen on the network, the search API
  answers with no hit), and one that has expired (the home page redirects to the login).\<close>

definition workingTokenEnv :: tokenEnv where
  "workingTokenEnv =
     \<lparr> dateNow = 1700000000000, isConnected = True, launch = Inr 1, newContext = Inr 2,
       seedCookies = None, newPage = Inr (Some 3), loginRedirect = False, settleWait = None,
       searchGoto = None, searchWait = None, networkToken = Some ''eyJ.bearer'',
       pageToken = Inr None \<rparr>"

definition expiredTokenEnv :: tokenEnv where
  "expiredTokenEnv = workingTokenEnv\<lparr> loginRedirect := True \<rparr>"

text \<open>A client that has kept the browser and the context of an earlier call.\<close>

definition pooledClient :: SapNotesApiClient where
  "pooledClient = \<lparr> browser = Some 1, browserContext = Some 2, browserLastUsed = 1700000000000 \<rparr>"

definition emptyHits :: response where
  "emptyHits =
     \<lparr> status = 200, bodyText = Inr ''{}'',
       bodyJson = Inr (JObj [(''totalCount'', JNum 0), (''results'', JArr [])]) \<rparr>"

definition workingSearchEnv :: searchEnv where
  "workingSearchEnv =
     \<lparr> derivation = workingTokenEnv,
       coveoPost = (\<lambda>q maxResults bearer cookie. Inr emptyHits),
       parseDate = (\<lambda>s. None) \<rparr>"

definition expiredSearchEnv :: searchEnv where
  "expiredSearchEnv = workingSearchEnv\<lparr> derivation := expiredTokenEnv \<rparr>"

definition workingHandlerEnv :: handlerEnv where
  "workingHandlerEnv = \<lparr> ensureAuthenticatedResult = Inr ''sid=1'', searching = workingSearchEnv \<rparr>"

definition expiredHandlerEnv :: handlerEnv where
  "expiredHandlerEnv = \<lparr> ensureAuthenticatedResult = Inr ''sid=1'', searching = expiredSearchEnv \<rparr>"

section \<open>The authenticator: \<open>SapAuthenticator\<close>\<close>

text \<open>
  \<open>ensureAuthenticated\<close> is an \<open>async\<close> function on one event loop: a call runs until
  its next \<open>await\<close>, other calls run meanwhile, and it goes on when the awaited promise
  has settled and its turn in the microtask queue has come. The model is a world (the fields of the
  authenticator, the token cache file, the clock, the promises, the calls and the
  microtask queue) and the events that change it.
\<close>

record cookie =
  c_name :: string
  c_value :: string

record AuthState =
  token :: "string option"
  expiresAt :: "int option"
  isAuthenticated :: bool

text \<open>The content of \<open>token-cache.json\<close>.\<close>

record CachedToken =
  access_token :: string
  cookies :: "cookie list"
  cachedExpiresAt :: int

text \<open>A promise of \<open>authenticate()\<close>; a pending one lists the calls that await it, in the
  order they began to.\<close>

datatype promise =
    Pending "nat list"
  | Fulfilled
  | Rejected error

text \<open>Where a call of \<open>ensureAuthenticated\<close> stands: at the \<open>await\<close> of line 235, at the
  \<open>await\<close> of line 245, or settled.\<close>

datatype caller =
    Running
  | AwaitGuard nat
  | AwaitLogin nat
  | Returned string
  | Threw error

datatype action =
    LoginStarted nat
  | BrowserClosed nat
  | CacheWritten

record world =
  authState :: AuthState
  authPromise :: "nat option"
  a_browser :: "nat option"
  a_context :: "nat option"
  a_page :: "nat option"
  maxJwtAgeH :: int
  tokenCacheFile :: "CachedToken option"
  clock :: nat
  promises :: "promise list"
  callers :: "caller list"
  microtasks :: "nat list"
  history :: "action list"

definition bufferMs :: int where
  "bufferMs = 5 * 60 * 1000"

definition notAuthenticated :: AuthState where
  "notAuthenticated = \<lparr> token = None, expiresAt = None, isAuthenticated = False \<rparr>"

definition isTokenValid :: "world \<Rightarrow> bool" where
  "isTokenValid w =
     (case token (authState w) of
        None \<Rightarrow> False
      | Some t \<Rightarrow>
          (case expiresAt (authState w) of
             None \<Rightarrow> False
           | Some e \<Rightarrow> t \<noteq> [] \<and> e \<noteq> 0 \<and> int (clock w) < e - bufferMs))"

text \<open>\<open>loadCachedToken\<close>: \<open>None\<close> when the file is missing or cannot be parsed.\<close>

definition loadCachedToken :: "world \<Rightarrow> CachedToken option" where
  "loadCachedToken w = tokenCacheFile w"

definition isTokenValidFromCache :: "nat \<Rightarrow> CachedToken \<Rightarrow> bool" where
  "isTokenValidFromCache now cachedToken =
     (access_token cachedToken \<noteq> [] \<and> cachedExpiresAt cachedToken \<noteq> 0
      \<and> int now < cachedExpiresAt cachedToken - bufferMs)"

text \<open>\<open>await p\<close> by the call \<open>i\<close>: it joins the waiters of a pending promise, or the
  microtask queue when the promise has settled.\<close>

definition awaitPromise :: "nat \<Rightarrow> nat \<Rightarrow> world \<Rightarrow> world" where
  "awaitPromise i p w =
     (case promises w ! p of
        Pending waiters \<Rightarrow> w\<lparr> promises := (promises w)[p := Pending (waiters @ [i])] \<rparr>
      | _ \<Rightarrow> w\<lparr> microtasks := microtasks w @ [i] \<rparr>)"

text \<open>\<open>authenticate()\<close> up to its first \<open>await\<close>: with a valid cache file the promise
  is fulfilled at once, otherwise a login sequence starts and the promise is pending.\<close>

definition authenticate :: "world \<Rightarrow> world \<times> nat" where
  "authenticate w =
     (let p = length (promises w)
      in case loadCachedToken w of
           None \<Rightarrow> (w\<lparr> promises := promises w @ [Pending []],
                       history := history w @ [LoginStarted p] \<rparr>, p)
         | Some cachedToken \<Rightarrow>
             if isTokenValidFromCache (clock w) cachedToken
             then (w\<lparr> authState := \<lparr> token = Some (access_token cachedToken),
                                     expiresAt = Some (cachedExpiresAt cachedToken),
                                     isAuthenticated = True \<rparr>,
                      promises := promises w @ [Fulfilled] \<rparr>, p)
             else (w\<lparr> promises := promises w @ [Pending []],
                      history := history w @ [LoginStarted p] \<rparr>, p))"

definition settle :: "nat \<Rightarrow> caller \<Rightarrow> world \<Rightarrow> world" where
  "settle i c w = w\<lparr> callers := (callers w)[i := c] \<rparr>"

text \<open>Lines 239 to 245, for the call \<open>i\<close>.\<close>

definition afterGuard :: "nat \<Rightarrow> world \<Rightarrow> world" where
  "afterGuard i w =
     (if isTokenValid w
      then (case token (authState w) of
              Some t \<Rightarrow> settle i (Returned t) w
            | None \<Rightarrow> w)
      else (case authenticate w of
              (w1, p) \<Rightarrow> awaitPromise i p (settle i (AwaitLogin p) (w1\<lparr> authPromise := Some p \<rparr>))))"

text \<open>Lines 246 to 252, for the call \<open>i\<close>.\<close>

definition afterLogin :: "nat \<Rightarrow> world \<Rightarrow> world" where
  "afterLogin i w =
     (let w1 = w\<lparr> authPromise := None \<rparr>
      in case token (authState w1) of
           None \<Rightarrow> settle i (Threw (Error ''Authentication failed - no token received'')) w1
         | Some t \<Rightarrow>
             if t = [] then settle i (Threw (Error ''Authentication failed - no token received'')) w1
             else settle i (Returned t) w1)"

text \<open>A new call of \<open>ensureAuthenticated\<close>, up to its first \<open>await\<close> or its return.\<close>

definition ensureAuthenticated :: "world \<Rightarrow> world" where
  "ensureAuthenticated w =
     (let i = length (callers w);
          w0 = w\<lparr> callers := callers w @ [Running] \<rparr>
      in case authPromise w0 of
           Some p \<Rightarrow> awaitPromise i p (settle i (AwaitGuard p) w0)
         | None \<Rightarrow> afterGuard i w0)"

text \<open>The first call in the microtask queue goes on after its \<open>await\<close>: a rejected
  promise throws its error there.\<close>

definition resume :: "world \<Rightarrow> world" where
  "resume w =
     (case microtasks w of
        [] \<Rightarrow> w
      | i # rest \<Rightarrow>
          (let w1 = w\<lparr> microtasks := rest \<rparr>
           in case callers w1 ! i of
                AwaitGuard p \<Rightarrow>
                  (case promises w1 ! p of
                     Rejected e \<Rightarrow> settle i (Threw e) w1
                   | Fulfilled \<Rightarrow> afterGuard i w1
                   | Pending waiters \<Rightarrow> w1)
              | AwaitLogin p \<Rightarrow>
                  (case promises w1 ! p of
                     Rejected e \<Rightarrow> settle i (Threw e) w1
                   | Fulfilled \<Rightarrow> afterLogin i w1
                   | Pending waiters \<Rightarrow> w1)
              | _ \<Rightarrow> w1))"

text \<open>\<open>cleanup()\<close>: \<open>closeResult\<close> is the error of \<open>browser.close()\<close>, if it throws one;
  the \<open>catch\<close> logs it, the \<open>finally\<close> clears the handles.\<close>

definition cleanup :: "error option \<Rightarrow> world \<Rightarrow> (error + unit) \<times> world" where
  "cleanup closeResult w =
     (case a_browser w of
        None \<Rightarrow> (Inr (), w)
      | Some b \<Rightarrow>
          (case closeResult of
             None \<Rightarrow> (Inr (), w\<lparr> a_browser := None, a_context := None, a_page := None,
                                 history := history w @ [BrowserClosed b] \<rparr>)
           | Some closeError \<Rightarrow>
               (Inr (), w\<lparr> a_browser := None, a_context := None, a_page := None,
                           history := history w @ [BrowserClosed b] \<rparr>)))"

text \<open>\<open>destroy()\<close>: the state is reset, the browser closed; the cache file is only
  looked at (\<open>existsSync\<close>), its removal is commented out.\<close>

definition destroy :: "error option \<Rightarrow> world \<Rightarrow> (error + unit) \<times> world" where
  "destroy closeResult w = cleanup closeResult (w\<lparr> authState := notAuthenticated \<rparr>)"

text \<open>
  What a login sequence ends with, as the browser and the vendor decide: the cookies of
  the browser context (and whether the cache file could be written), or an error thrown
  somewhere in the \<open>try\<close> block.
\<close>

datatype loginOutcome =
    LoginCookies "cookie list" bool
  | LoginThrows error

text \<open>The \<open>catch\<close> of \<open>authenticate\<close>: the three error classes of the authenticator are
  thrown on as they are, anything else is wrapped.\<close>

fun typedError :: "error \<Rightarrow> error" where
  "typedError (AuthenticationTimeoutError ms) = AuthenticationTimeoutError ms"
| "typedError (CertificateLoadError path cause) = CertificateLoadError path cause"
| "typedError (BrowserNotFoundError browserType) = BrowserNotFoundError browserType"
| "typedError e = AuthenticationError ''Authentication process failed'' e"

definition cookieString :: "cookie list \<Rightarrow> string" where
  "cookieString allCookies = joinWith ''; '' (map (\<lambda>c. c_name c @ ''='' @ c_value c) allCookies)"

text \<open>Lines 512 to 558: the end of the login sequence of the promise \<open>p\<close>. The state and
  the cache file are written, or the state is cleared; the browser is cleaned up; the
  promise settles and its waiters enter the microtask queue.\<close>

definition finishLogin :: "nat \<Rightarrow> loginOutcome \<Rightarrow> world \<Rightarrow> world" where
  "finishLogin p outcome w =
     (if p < length (promises w)
      then (case promises w ! p of
              Pending waiters \<Rightarrow>
                (case outcome of
                   LoginCookies allCookies written \<Rightarrow>
                     (let expiry = int (clock w) + maxJwtAgeH w * 60 * 60 * 1000;
                          w1 = w\<lparr> authState := \<lparr> token = Some (cookieString allCookies),
                                                  expiresAt = Some expiry,
                                                  isAuthenticated = True \<rparr> \<rparr>;
                          w2 = (if written
                                then w1\<lparr> tokenCacheFile :=
                                           Some \<lparr> access_token = cookieString allCookies,
                                                  cookies = allCookies,
                                                  cachedExpiresAt = expiry \<rparr>,
                                         history := history w1 @ [CacheWritten] \<rparr>
                                else w1);
                          w3 = snd (cleanup None w2)
                      in w3\<lparr> promises := (promises w3)[p := Fulfilled],
                             microtasks := microtasks w3 @ waiters \<rparr>)
                 | LoginThrows e \<Rightarrow>
                     (let w1 = w\<lparr> authState := notAuthenticated \<rparr>;
                          w3 = snd (cleanup None w1)
                      in w3\<lparr> promises := (promises w3)[p := Rejected (typedError e)],
                             microtasks := microtasks w3 @ waiters \<rparr>))
            | _ \<Rightarrow> w)
      else w)"

text \<open>Lines 400 to 417: a login sequence launches its browser, context and page.\<close>

definition launchLogin :: "nat \<Rightarrow> nat \<Rightarrow> nat \<Rightarrow> world \<Rightarrow> world" where
  "launchLogin b x pg w = w\<lparr> a_browser := Some b, a_context := Some x, a_page := Some pg \<rparr>"

text \<open>The events: a call, a turn of the microtask queue, the steps of a login, time
  passing, \<open>destroy\<close>, and another process writing the cache file (the script
  \<open>test/test-auth.js\<close> logs in with an authenticator of its own).\<close>

datatype event =
    Call
  | Microtask
  | LoginLaunched nat nat nat
  | LoginDone nat loginOutcome
  | Advance nat
  | Destroy "error option"
  | CacheFileReplaced CachedToken

fun step :: "event \<Rightarrow> world \<Rightarrow> world" where
  "step Call w = ensureAuthenticated w"
| "step Microtask w = resume w"
| "step (LoginLaunched b x pg) w = launchLogin b x pg w"
| "step (LoginDone p outcome) w = finishLogin p outcome w"
| "step (Advance ms) w = w\<lparr> clock := clock w + ms \<rparr>"
| "step (Destroy closeResult) w = snd (destroy closeResult w)"
| "step (CacheFileReplaced cachedToken) w = w\<lparr> tokenCacheFile := Some cachedToken \<rparr>"

fun run :: "event list \<Rightarrow> world \<Rightarrow> world" where
  "run [] w = w"
| "run (e # es) w = run es (step e w)"

text \<open>A fresh authenticator in a process that has just started.\<close>

definition newWorld :: "int \<Rightarrow> CachedToken option \<Rightarrow> nat \<Rightarrow> world" where
  "newWorld maxAge cacheFile now =
     \<lparr> authState = notAuthenticated, authPromise = None, a_browser = None, a_context = None,
       a_page = None, maxJwtAgeH = maxAge, tokenCacheFile = cacheFile, clock = now,
       promises = [], callers = [], microtasks = [], history = [] \<rparr>"

text \<open>The login sequences that have started and not ended.\<close>

fun isPending :: "promise \<Rightarrow> bool" where
  "isPending (Pending waiters) = True"
| "isPending settled = False"

definition loginsInFlight :: "world \<Rightarrow> nat" where
  "loginsInFlight w = length (filter isPending (promises w))"

fun isLoginStarted :: "action \<Rightarrow> bool" where
  "isLoginStarted (LoginStarted p) = True"
| "isLoginStarted a = False"

definition loginsStarted :: "world \<Rightarrow> nat" where
  "loginsStarted w = length (filter isLoginStarted (history w))"

subsection \<open>Freshness of a cached session\<close>

text \<open>The words of the specification: a cached session is fresh when it has session
  material and the clock is more than five minutes before its expiry; the record in memory
  and the record in the cache file can each be fresh.\<close>

definition sessionFresh :: "nat \<Rightarrow> string \<Rightarrow> int \<Rightarrow> bool" where
  "sessionFresh now material expiry = (material \<noteq> [] \<and> int now < expiry - 5 * 60 * 1000)"

definition memoryFresh :: "world \<Rightarrow> bool" where
  "memoryFresh w =
     (\<exists>t e. token (authState w) = Some t \<and> expiresAt (authState w) = Some e \<and> sessionFresh (clock w) t e)"

definition diskFresh :: "world \<Rightarrow> bool" where
  "diskFresh w =
     (\<exists>c. tokenCacheFile w = Some c \<and> sessionFresh (clock w) (access_token c) (cachedExpiresAt c))"

text \<open>The handle \<open>authPromise\<close> is empty and no call is waiting for its turn.\<close>

definition idle :: "world \<Rightarrow> bool" where
  "idle w = (authPromise w = None \<and> microtasks w = [])"

text \<open>A call, run until the microtask queue is empty again, has returned \<open>t\<close> and no
  login has started; or it has started a login and waits for it.\<close>

definition returnsCached :: "world \<Rightarrow> string \<Rightarrow> bool" where
  "returnsCached w t =
     (callers (run [Call, Microtask] w) = callers w @ [Returned t]
      \<and> history (run [Call, Microtask] w) = history w)"

definition startsLogin :: "world \<Rightarrow> bool" where
  "startsLogin w =
     (callers (run [Call, Microtask] w) = callers w @ [AwaitLogin (length (promises w))]
      \<and> promises (run [Call, Microtask] w) = promises w @ [Pending [length (callers w)]]
      \<and> history (run [Call, Microtask] w) = history w @ [LoginStarted (length (promises w))])"

text \<open>The same for an authenticator whose handle \<open>authPromise\<close> may hold a promise
  that has settled. It is quiet when no call waits for its turn and the handle holds no
  pending login; \<open>staleError\<close> is the error of the rejected promise the handle holds, if
  it holds one. A call then takes at most two turns of the microtask queue, one after the
  guard of line 235 and one after the \<open>await\<close> of line 245: it has returned \<open>t\<close> and
  no login has started, or it has started a login and waits for it, or it has thrown \<open>e\<close>
  and neither a login nor a promise has been added.\<close>

definition quiet :: "world \<Rightarrow> bool" where
  "quiet w =
     (microtasks w = []
      \<and> (case authPromise w of
            None \<Rightarrow> True
          | Some p \<Rightarrow> p < length (promises w) \<and> \<not> isPending (promises w ! p)))"

definition staleError :: "world \<Rightarrow> error option" where
  "staleError w =
     (case authPromise w of
        None \<Rightarrow> None
      | Some p \<Rightarrow> (case promises w ! p of Rejected e \<Rightarrow> Some e | _ \<Rightarrow> None))"

definition afterCall :: "world \<Rightarrow> world" where
  "afterCall w = run [Call, Microtask, Microtask] w"

definition settlesCached :: "world \<Rightarrow> string \<Rightarrow> bool" where
  "settlesCached w t =
     (callers (afterCall w) = callers w @ [Returned t] \<and> history (afterCall w) = history w)"

definition settlesLogin :: "world \<Rightarrow> bool" where
  "settlesLogin w =
     (callers (afterCall w) = callers w @ [AwaitLogin (length (promises w))]
      \<and> promises (afterCall w) = promises w @ [Pending [length (callers w)]]
      \<and> history (afterCall w) = history w @ [LoginStarted (length (promises w))])"

definition rethrows :: "world \<Rightarrow> error \<Rightarrow> bool" where
  "rethrows w e =
     (callers (afterCall w) = callers w @ [Threw e]
      \<and> promises (afterCall w) = promises w
      \<and> history (afterCall w) = history w)"

subsection \<open>Concurrent calls that share one login\<close>

text \<open>The world after \<open>k + 1\<close> calls on an authenticator that has no fresh session: the
  first call owns the login, the others wait at the guard.\<close>

definition waiting :: "world \<Rightarrow> nat \<Rightarrow> world" where
  "waiting w k =
     w\<lparr> authPromise := Some (length (promises w)),
        promises := promises w @ [Pending [length (callers w) ..< length (callers w) + Suc k]],
        callers := callers w @ AwaitLogin (length (promises w)) # replicate k (AwaitGuard (length (promises w))),
        history := history w @ [LoginStarted (length (promises w))] \<rparr>"

text \<open>The schedule: \<open>k + 1\<close> calls, the end of the one login, \<open>k + 1\<close> microtasks.\<close>

definition singleFlight :: "world \<Rightarrow> nat \<Rightarrow> loginOutcome \<Rightarrow> event list" where
  "singleFlight w k outcome =
     replicate (Suc k) Call @ [LoginDone (length (promises w)) outcome] @ replicate (Suc k) Microtask"

text \<open>A login outcome is usable when the login failed, or left a token that the validity
  check accepts; \<open>sharedResult\<close> is how every waiting call then settles.\<close>

definition usable :: "world \<Rightarrow> loginOutcome \<Rightarrow> bool" where
  "usable w outcome =
     (case outcome of
        LoginThrows e \<Rightarrow> True
      | LoginCookies cs written \<Rightarrow> cookieString cs \<noteq> [] \<and> 1 \<le> maxJwtAgeH w)"

definition sharedResult :: "loginOutcome \<Rightarrow> caller" where
  "sharedResult outcome =
     (case outcome of
        LoginThrows e \<Rightarrow> Threw (typedError e)
      | LoginCookies cs written \<Rightarrow> Returned (cookieString cs))"

subsection \<open>Sample worlds\<close>

text \<open>A process that has just started with no cache file, at a maximal session age of
  twelve hours and of zero hours; a login that fails for want of the certificate; a
  session cookie; a session in memory; a cache file written at the start of the sample
  clock; an authenticator whose login has failed, after which another process has written
  the cache file; an authenticator destroyed in the middle of a login.\<close>

definition coldStart :: world where
  "coldStart = newWorld 12 None 1700000000000"

definition zeroAgeStart :: world where
  "zeroAgeStart = newWorld 0 None 1700000000000"

definition missingCertificate :: error where
  "missingCertificate =
     CertificateLoadError ''/certs/sap.pfx'' (Error ''Certificate file not found: /certs/sap.pfx'')"

definition sessionCookie :: "string \<Rightarrow> cookie" where
  "sessionCookie v = \<lparr> c_name = ''sid'', c_value = v \<rparr>"

definition session :: "int \<Rightarrow> AuthState" where
  "session expiry = \<lparr> token = Some ''sid=1'', expiresAt = Some expiry, isAuthenticated = True \<rparr>"

definition savedSession :: CachedToken where
  "savedSession =
     \<lparr> access_token = ''sid=1'', cookies = [\<lparr> c_name = ''sid'', c_value = ''1'' \<rparr>],
       cachedExpiresAt = 1700000000000 + 12 * 60 * 60 * 1000 \<rparr>"

definition staleHandle :: world where
  "staleHandle =
     run [Call, LoginDone 0 (LoginThrows missingCertificate), Microtask, CacheFileReplaced savedSession]
       coldStart"

definition midLogin :: world where
  "midLogin = run [Call, LoginLaunched 7 8 9] (newWorld 12 (Some savedSession) 1800000000000)"

section \<open>Properties of \<open>parseCoveoResponse\<close>\<close>

lemma numberToString_examples:
  "numberToString 2744792 = ''2744792''" "numberToString (10 ^ 21) = ''1e+21''"
  by (simp_all add: numberToString_def roundToDouble_def digitChar_def Let_def)

lemma isoDate_scenario: "isoDate 1552608000000 = ''2019-03-15''"
  by code_simp

lemma parseCoveoItem_scenario:
  assumes "optProp (optProp item ''raw'') ''mh_id'' = JStr ''2744792''"
    and "optProp (optProp item ''raw'') ''date'' = JNum 1552608000000"
    and "optProp item ''title'' = JUndefined \<or> (\<exists>s. optProp item ''title'' = JStr s)"
  shows "\<exists>r. parseCoveoItem dp item = Inr r \<and> r_id r = JStr ''2744792'' \<and> r_releaseDate r = JStr ''2019-03-15''"
proof -
  have nn: "\<exists>fs. item = JObj fs" using assms(1) by (cases item) auto
  then obtain fs where item: "item = JObj fs" by blast
  have raw: "getProp item ''raw'' = Inr (optProp item ''raw'')" by (simp add: item)
  have nid: "coveoNoteId item = Inr (JStr ''2744792'')"
    using assms(1) by (simp add: coveoNoteId_def bindE_def raw)
  have d: "toISODate dp (JNum 1552608000000) = Inr ''2019-03-15''"
    by (simp add: toISODate_def timeClip_def maxTime_def isoDate_scenario)
  from assms(3) have sub: "\<exists>v. optSubstring (optProp item ''title'') 60 = Inr v" by auto
  then obtain v where v: "optSubstring (optProp item ''title'') 60 = Inr v" by blast
  show ?thesis
    using assms(1,2) by (simp add: parseCoveoItem_def bindE_def nid d v Let_def)
qed

text \<open>
  Claim C8. A response whose hit array holds one hit with \<open>raw.mh_id = "2744792"\<close> and
  \<open>raw.date = 1552608000000\<close> (its title a string, or not there) is normalized to one
  result with \<open>id = "2744792"\<close> and \<open>releaseDate = "2019-03-15"\<close>; a response whose
  \<open>results\<close> is empty, missing or not an array gives the empty list; and no response
  object, whatever its hits are, makes \<open>parseCoveoResponse\<close> throw: a hit that cannot be
  parsed is left out.
\<close>

theorem parseCoveoResponse_normalizes:
  "(\<not> nullish data \<and> optProp data ''results'' = JArr [item]
      \<and> optProp (optProp item ''raw'') ''mh_id'' = JStr ''2744792''
      \<and> optProp (optProp item ''raw'') ''date'' = JNum 1552608000000
      \<and> (optProp item ''title'' = JUndefined \<or> (\<exists>s. optProp item ''title'' = JStr s))
     \<longrightarrow> (\<exists>r. parseCoveoResponse dateParse data = Inr [r]
            \<and> r_id r = JStr ''2744792'' \<and> r_releaseDate r = JStr ''2019-03-15''))
   \<and> (\<not> nullish data' \<and> (\<forall>x xs. optProp data' ''results'' \<noteq> JArr (x # xs))
     \<longrightarrow> parseCoveoResponse dateParse data' = Inr [])
   \<and> (\<not> nullish data' \<longrightarrow> (\<exists>rs. parseCoveoResponse dateParse data' = Inr rs))"
proof (intro conjI impI)
  assume a: "\<not> nullish data \<and> optProp data ''results'' = JArr [item]
      \<and> optProp (optProp item ''raw'') ''mh_id'' = JStr ''2744792''
      \<and> optProp (optProp item ''raw'') ''date'' = JNum 1552608000000
      \<and> (optProp item ''title'' = JUndefined \<or> (\<exists>s. optProp item ''title'' = JStr s))"
  then obtain r where r: "parseCoveoItem dateParse item = Inr r" "r_id r = JStr ''2744792''"
      "r_releaseDate r = JStr ''2019-03-15''"
    using parseCoveoItem_scenario[of item dateParse] by blast
  from a have g: "getProp data ''results'' = Inr (JArr [item])" by (cases data) auto
  show "\<exists>r. parseCoveoResponse dateParse data = Inr [r]
            \<and> r_id r = JStr ''2744792'' \<and> r_releaseDate r = JStr ''2019-03-15''"
    using r by (simp add: parseCoveoResponse_def bindE_def g)
next
  assume b: "\<not> nullish data' \<and> (\<forall>x xs. optProp data' ''results'' \<noteq> JArr (x # xs))"
  then have g: "getProp data' ''results'' = Inr (optProp data' ''results'')" by (cases data') auto
  show "parseCoveoResponse dateParse data' = Inr []"
  proof (cases "optProp data' ''results''")
    case (JArr xs)
    with b have "xs = []" by (cases xs) auto
    then show ?thesis by (simp add: parseCoveoResponse_def bindE_def g JArr)
  qed (simp_all add: parseCoveoResponse_def bindE_def g)
next
  assume "\<not> nullish data'"
  then have "getProp data' ''results'' = Inr (optProp data' ''results'')" by (cases data') auto
  then show "\<exists>rs. parseCoveoResponse dateParse data' = Inr rs"
    by (cases "optProp data' ''results''") (simp_all add: parseCoveoResponse_def bindE_def)
qed

theorem parseCoveoResponse_normalizes_witness:
  "(\<exists>r. parseCoveoResponse (\<lambda>s. None)
          (JObj [(''totalCount'', JNum 1),
                 (''results'', JArr [JObj [(''title'', JStr ''Note''),
                    (''raw'', JObj [(''mh_id'', JStr ''2744792''), (''date'', JNum 1552608000000)])]])]) = Inr [r]
        \<and> r_id r = JStr ''2744792'' \<and> r_releaseDate r = JStr ''2019-03-15'')
   \<and> parseCoveoResponse (\<lambda>s. None) (JObj [(''results'', JStr ''none'')]) = Inr []"
  using parseCoveoResponse_normalizes[of
      "JObj [(''totalCount'', JNum 1),
                 (''results'', JArr [JObj [(''title'', JStr ''Note''),
                    (''raw'', JObj [(''mh_id'', JStr ''2744792''), (''date'', JNum 1552608000000)])]])]"
      "JObj [(''title'', JStr ''Note''),
                    (''raw'', JObj [(''mh_id'', JStr ''2744792''), (''date'', JNum 1552608000000)])]"
      "\<lambda>s. None" "JObj [(''results'', JStr ''none'')]"]
  by simp

section \<open>Properties of \<open>getNote\<close> and of the detail parsers\<close>

lemma fallbackLoop_no_throw: "\<exists>r. fst (fallbackLoop env eps noteId tok) = Inr r"
  by (induction eps) (auto split: sum.splits option.splits prod.splits)

lemma fallbackLoop_all_fail:
  "\<forall>ep \<in> set eps. \<forall>n. endpointStrategy env ep noteId tok \<noteq> Inr (Some n) \<Longrightarrow>
   fallbackLoop env eps noteId tok = (Inr None, map (\<lambda>ep. HttpGet (baseUrl @ ep)) eps)"
  by (induction eps) (auto split: sum.splits option.splits prod.splits)

text \<open>
  Claim C6. \<open>getNote\<close> never throws. When no strategy yields a note (each one throws or
  returns nothing) it returns \<open>null\<close>, after the browser-driven request, the plain request
  to the raw endpoint and one request to every legacy endpoint, in this order. When the
  browser-driven strategy yields a note, that note is returned and no other request is
  made.
\<close>

theorem getNote_fallback_chain:
  "(\<exists>r. fst (getNote env noteId tok) = Inr r)
   \<and> ((\<forall>n. playwrightNote env noteId tok \<noteq> Inr (Some n))
      \<and> (\<forall>n. rawHttpStrategy env noteId tok \<noteq> Inr (Some n))
      \<and> (\<forall>ep \<in> set (fallbackEndpoints noteId). \<forall>n. endpointStrategy env ep noteId tok \<noteq> Inr (Some n))
      \<longrightarrow> getNote env noteId tok =
            (Inr None, Playwright noteId # HttpGet (rawNotesUrl @ rawEndpoint noteId)
                         # map (\<lambda>ep. HttpGet (baseUrl @ ep)) (fallbackEndpoints noteId)))
   \<and> (playwrightNote env noteId tok = Inr (Some note)
      \<longrightarrow> getNote env noteId tok = (Inr (Some note), [Playwright noteId]))"
proof (intro conjI impI)
  obtain r where r: "fst (fallbackLoop env (fallbackEndpoints noteId) noteId tok) = Inr r"
    using fallbackLoop_no_throw by blast
  then show "\<exists>r. fst (getNote env noteId tok) = Inr r"
    by (auto simp: getNote_def getNoteStrategies_def split: sum.splits option.splits prod.splits)
next
  assume a: "(\<forall>n. playwrightNote env noteId tok \<noteq> Inr (Some n))
      \<and> (\<forall>n. rawHttpStrategy env noteId tok \<noteq> Inr (Some n))
      \<and> (\<forall>ep \<in> set (fallbackEndpoints noteId). \<forall>n. endpointStrategy env ep noteId tok \<noteq> Inr (Some n))"
  then have loop: "fallbackLoop env (fallbackEndpoints noteId) noteId tok
      = (Inr None, map (\<lambda>ep. HttpGet (baseUrl @ ep)) (fallbackEndpoints noteId))"
    using fallbackLoop_all_fail by blast
  from a show "getNote env noteId tok =
            (Inr None, Playwright noteId # HttpGet (rawNotesUrl @ rawEndpoint noteId)
                         # map (\<lambda>ep. HttpGet (baseUrl @ ep)) (fallbackEndpoints noteId))"
    by (auto simp: getNote_def getNoteStrategies_def loop split: sum.splits option.splits)
next
  assume "playwrightNote env noteId tok = Inr (Some note)"
  then show "getNote env noteId tok = (Inr (Some note), [Playwright noteId])"
    by (simp add: getNote_def getNoteStrategies_def)
qed

lemma failingEnv_strategies:
  "playwrightNote failingEnv noteId tok = Inl (Error ''Playwright extraction failed: HTTP 500: Failed to load page'')"
  "rawHttpStrategy failingEnv noteId tok = Inl (TypeError ''fetch failed'')"
  "endpointStrategy failingEnv ep noteId tok = Inl (TypeError ''fetch failed'')"
  by (simp_all add: failingEnv_def rawHttpStrategy_def endpointStrategy_def makeRawRequest_def
      makeRequest_def bindE_def)

theorem getNote_fallback_chain_witness:
  "fst (getNote failingEnv ''2744792'' ''sid=1'') = Inr None
   \<and> length (snd (getNote failingEnv ''2744792'' ''sid=1'')) = 5
   \<and> getNote playwrightEnv ''2744792'' ''sid=1'' = (Inr (Some sampleNote), [Playwright ''2744792''])"
proof -
  have p: "playwrightNote playwrightEnv ''2744792'' ''sid=1'' = Inr (Some sampleNote)"
    by (simp add: playwrightEnv_def)
  have l: "length (fallbackEndpoints ''2744792'') = 3" by (simp add: fallbackEndpoints_def)
  show ?thesis
    using getNote_fallback_chain[of failingEnv "''2744792''" "''sid=1''" sampleNote]
      getNote_fallback_chain[of playwrightEnv "''2744792''" "''sid=1''" sampleNote] p l
    by (simp add: failingEnv_strategies)
qed

lemma parseNoteResponse_not_absent: "parseNoteResponse jp resp noteId \<noteq> Inr None"
  by (auto simp: parseNoteResponse_def bindE_def parseHtmlForNoteDetail_def Let_def
      split: sum.splits option.splits)

lemma parseRawNoteDetail_not_absent: "parseRawNoteDetail jp resp noteId \<noteq> Inr None"
  by (auto simp: parseRawNoteDetail_def bindE_def parseHtmlForNoteDetail_def Let_def
      split: sum.splits option.splits)

lemma httpError_throws: "\<exists>e. (httpError resp :: error + 'a) = Inl e"
  by (auto simp: httpError_def split: sum.splits)

lemma rawHttpStrategy_absent:
  "rawHttpStrategy env noteId tok = Inr None
   \<longleftrightarrow> (\<exists>resp. httpGet env (rawNotesUrl @ rawEndpoint noteId) tok = Inr resp
              \<and> (status resp = 404 \<or> status resp = 302 \<or> status resp = 301))"
proof (cases "httpGet env (rawNotesUrl @ rawEndpoint noteId) tok")
  case (Inl e)
  then show ?thesis by (simp add: rawHttpStrategy_def makeRawRequest_def bindE_def)
next
  case (Inr resp)
  obtain e where e: "(httpError resp :: error + response) = Inl e" using httpError_throws by blast
  show ?thesis
    using parseRawNoteDetail_not_absent[of "jsonParse env" resp noteId]
    by (auto simp: rawHttpStrategy_def makeRawRequest_def bindE_def Inr e ok_def)
qed

text \<open>
  Claim C9, as amended. \<open>parseHtmlForNoteDetail\<close> returns a note for every markup and
  identifier: the title is the trimmed content of the first one-line \<open>title\<close> element with
  its first \<open>SAP\<close> prefix cut out, or \<open>SAP Note <id>\<close> without such an element; summary
  and content are fixed placeholders. So neither parser of the plain-HTTP strategies ever
  returns \<open>null\<close>: a legacy endpoint yields no note only by throwing, and the raw endpoint
  yields no note only by throwing or when its response has status 404, 302 or 301, which
  \<open>getNote\<close> passes over without parsing.
\<close>

theorem parseHtmlForNoteDetail_never_absent:
  "(\<exists>note. parseHtmlForNoteDetail html noteId = Some note
       \<and> d_id note = JStr noteId
       \<and> d_title note = JStr (case titleMatch html of
                                Some captured \<Rightarrow> trim (replaceSap captured)
                              | None \<Rightarrow> ''SAP Note '' @ noteId)
       \<and> d_summary note = JStr ''SAP Note details available at the provided URL''
       \<and> d_content note = JStr ''Please visit the URL for complete note content'')
   \<and> parseNoteResponse jp resp noteId \<noteq> Inr None
   \<and> parseRawNoteDetail jp resp noteId \<noteq> Inr None
   \<and> endpointStrategy env endpoint noteId tok \<noteq> Inr None
   \<and> (rawHttpStrategy env noteId tok = Inr None
        \<longleftrightarrow> (\<exists>r. httpGet env (rawNotesUrl @ rawEndpoint noteId) tok = Inr r
                 \<and> (status r = 404 \<or> status r = 302 \<or> status r = 301)))"
proof -
  have "endpointStrategy env endpoint noteId tok \<noteq> Inr None"
    using parseNoteResponse_not_absent
    by (auto simp: endpointStrategy_def bindE_def split: sum.splits)
  then show ?thesis
    using parseNoteResponse_not_absent parseRawNoteDetail_not_absent rawHttpStrategy_absent
    by (simp add: parseHtmlForNoteDetail_def Let_def)
qed

text \<open>The claim C9 as first stated fails: on a 404 response the plain request to the
  raw endpoint yields no note and throws nothing.\<close>

theorem rawHttpStrategy_absent_without_throwing:
  "rawHttpStrategy notFoundEnv ''2744792'' ''sid=1'' = Inr None"
  by (simp add: rawHttpStrategy_def makeRawRequest_def bindE_def notFoundEnv_def ok_def)

lemma parseHtml_title_example:
  "map_option d_title (parseHtmlForNoteDetail ''<html><TITLE>SAP - 2744792 Fix</TITLE></html>'' ''2744792'')
     = Some (JStr ''2744792 Fix'')
   \<and> map_option d_title (parseHtmlForNoteDetail ''<html><body>x</body></html>'' ''2744792'')
     = Some (JStr ''SAP Note 2744792'')"
  by code_simp

section \<open>Properties of token derivation and search\<close>

lemma closeIdle_inv: "clientInv c \<Longrightarrow> clientInv (fst (closeIdle env c))"
  by (auto simp: closeIdle_def clientInv_def split: option.splits)

lemma openSession_inv: "clientInv c \<Longrightarrow> clientInv (fst (snd (openSession env c)))"
  by (auto simp: openSession_def clientInv_def split: sum.splits)

lemma body_inv:
  assumes "clientInv c"
  shows "clientInv (fst (snd (getCoveoTokenBody env c)))"
proof -
  obtain c1 ef1 where ci: "closeIdle env c = (c1, ef1)" by (cases "closeIdle env c")
  obtain err c2 ef2 where os: "openSession env c1 = (err, c2, ef2)" by (cases "openSession env c1") auto
  have "clientInv c1" using closeIdle_inv[OF assms, of env] ci by simp
  then have c2: "clientInv c2" using openSession_inv[of c1 env] os by simp
  then have c3: "clientInv (c2\<lparr> browserLastUsed := dateNow env \<rparr>)" by (simp add: clientInv_def)
  show ?thesis
    using c2 c3
    by (auto simp: getCoveoTokenBody_def ci os Let_def split: option.splits sum.splits prod.splits)
qed

lemma getCoveoToken_inv:
  assumes "clientInv c"
  shows "clientInv (fst (snd (getCoveoToken env tok c)))"
proof -
  obtain r c1 pg ef where b: "getCoveoTokenBody env c = (r, c1, pg, ef)"
    by (cases "getCoveoTokenBody env c") auto
  have "clientInv c1" using body_inv[OF assms, of env] b by simp
  then show ?thesis
    by (auto simp: getCoveoToken_def b Let_def clientInv_def split: sum.splits option.splits)
qed

lemma expired_state:
  assumes "clientInv c" and "getCoveoToken env tok c = (Inl (Error ''SESSION_EXPIRED''), c', ef)"
  shows "browser c' = None \<and> browserContext c' = None"
proof -
  obtain r c1 pg ef0 where b: "getCoveoTokenBody env c = (r, c1, pg, ef0)"
    by (cases "getCoveoTokenBody env c") auto
  have inv: "clientInv c1" using body_inv[OF assms(1), of env] b by simp
  show ?thesis
    using assms(2) inv
    by (auto simp: getCoveoToken_def b Let_def clientInv_def split: sum.splits option.splits if_splits)
qed

lemma deriveToken_no_open: "deriveToken env p = (r, ef) \<Longrightarrow> OpenPage x q \<notin> set ef"
  by (auto simp: deriveToken_def Let_def split: option.splits sum.splits if_splits)

lemma closeIdle_no_open: "OpenPage x q \<notin> set (snd (closeIdle env c))"
  by (auto simp: closeIdle_def split: option.splits)

lemma openSession_no_open: "OpenPage x q \<notin> set (snd (snd (openSession env c)))"
  by (auto simp: openSession_def split: sum.splits)

lemma body_open_page:
  assumes "getCoveoTokenBody env c = (r, c1, pg, ef)" and "OpenPage x p \<in> set ef"
  shows "pg = Some p \<and> browserContext c1 = Some x"
proof -
  obtain c1' ef1 where ci: "closeIdle env c = (c1', ef1)" by (cases "closeIdle env c")
  obtain err c2 ef2 where os: "openSession env c1' = (err, c2, ef2)" by (cases "openSession env c1'") auto
  have n1: "OpenPage x p \<notin> set ef1" using closeIdle_no_open[of x p env c] ci by simp
  have n2: "OpenPage x p \<notin> set ef2" using openSession_no_open[of x p env c1'] os by simp
  show ?thesis
    using assms n1 n2
    by (auto simp: getCoveoTokenBody_def ci os Let_def dest: deriveToken_no_open
        split: option.splits sum.splits prod.splits)
qed

lemma body_open_browser:
  assumes "clientInv c" and "getCoveoTokenBody env c = (r, c1, pg, ef)" and "OpenPage x p \<in> set ef"
  shows "\<exists>b. browser c1 = Some b"
proof -
  have "browserContext c1 = Some x" using body_open_page[OF assms(2,3)] by simp
  moreover have "clientInv c1" using body_inv[OF assms(1), of env] assms(2) by simp
  ultimately show ?thesis by (auto simp: clientInv_def)
qed

lemma expired_effects:
  assumes "clientInv c" and "getCoveoToken env tok c = (Inl (Error ''SESSION_EXPIRED''), c', ef)"
    and "OpenPage x p \<in> set ef"
  shows "\<exists>b ef0. ef = ef0 @ [CloseBrowser b, ClosePage p]"
proof -
  obtain r c1 pg ef0 where b: "getCoveoTokenBody env c = (r, c1, pg, ef0)"
    by (cases "getCoveoTokenBody env c") auto
  have sub: "set ef \<subseteq> set ef0 \<union> {e. \<exists>b. e = CloseBrowser b} \<union> {e. \<exists>q. e = ClosePage q}"
    using assms(2)
    by (auto simp: getCoveoToken_def b Let_def split: sum.splits option.splits if_splits)
  then have o: "OpenPage x p \<in> set ef0" using assms(3) by auto
  have pg: "pg = Some p" using body_open_page[OF b o] by simp
  obtain bb where bb: "browser c1 = Some bb" using body_open_browser[OF assms(1) b o] by blast
  show ?thesis
    using assms(2)
    by (auto simp: getCoveoToken_def b pg bb Let_def split: sum.splits if_splits)
qed

lemma fresh_launch:
  assumes "browser c = None"
  shows "\<exists>ef. snd (snd (getCoveoToken env tok c)) = Launch # ef"
proof -
  have ci: "closeIdle env c = (c, [])" using assms by (simp add: closeIdle_def)
  have "\<exists>err c2 ef2. openSession env c = (err, c2, Launch # ef2)"
    using assms by (auto simp: openSession_def split: sum.splits)
  then obtain err c2 ef2 where os: "openSession env c = (err, c2, Launch # ef2)" by blast
  show ?thesis
    by (auto simp: getCoveoToken_def getCoveoTokenBody_def ci os Let_def
        split: sum.splits option.splits prod.splits)
qed

lemma fresh_context:
  assumes "browser c = None" and "OpenPage x p \<in> set (snd (snd (getCoveoToken env tok c)))"
  shows "\<exists>b. launch env = Inr b \<and> newContext env = Inr x
           \<and> NewContext b x \<in> set (snd (snd (getCoveoToken env tok c)))"
proof -
  obtain r c1 pg ef0 where b: "getCoveoTokenBody env c = (r, c1, pg, ef0)"
    by (cases "getCoveoTokenBody env c") auto
  have sub: "set (snd (snd (getCoveoToken env tok c)))
       \<subseteq> set ef0 \<union> {e. \<exists>b. e = CloseBrowser b} \<union> {e. \<exists>q. e = ClosePage q}"
    by (auto simp: getCoveoToken_def b Let_def split: sum.splits option.splits if_splits)
  have sup: "set ef0 \<subseteq> set (snd (snd (getCoveoToken env tok c)))"
    by (auto simp: getCoveoToken_def b Let_def split: sum.splits option.splits if_splits)
  from sub assms(2) have o: "OpenPage x p \<in> set ef0" by auto
  have ctx: "browserContext c1 = Some x" using body_open_page[OF b o] by simp
  have ci: "closeIdle env c = (c, [])" using assms(1) by (simp add: closeIdle_def)
  have "\<exists>b. launch env = Inr b \<and> newContext env = Inr x \<and> NewContext b x \<in> set ef0"
    using b ctx o assms(1)
    by (auto simp: getCoveoTokenBody_def ci openSession_def Let_def
        split: sum.splits option.splits prod.splits)
  then show ?thesis using sup by blast
qed

lemma deriveToken_navigates:
  "deriveToken env p = (r, ef) \<Longrightarrow> set ef \<subseteq> {Navigate p homeUrl, Navigate p searchPageUrl}"
  by (auto simp: deriveToken_def Let_def split: option.splits sum.splits if_splits)

lemma expired_shape:
  assumes "getCoveoTokenBody env c = (r, c1, pg, ef0)"
    and "getCoveoToken env tok c = (Inl (Error ''SESSION_EXPIRED''), c', ef)"
  shows "ef = ef0 @ (case browser c1 of Some b \<Rightarrow> [CloseBrowser b] | None \<Rightarrow> [])
                 @ (case pg of Some p \<Rightarrow> [ClosePage p] | None \<Rightarrow> [])"
  using assms(2)
  by (auto simp: getCoveoToken_def assms(1) Let_def split: sum.splits option.splits if_splits)

lemma body_reused:
  assumes "getCoveoTokenBody env c = (r, c1, pg, ef0)"
    and "browser c = Some b" and "\<not> BROWSER_IDLE_TIMEOUT < dateNow env - browserLastUsed c"
    and "isConnected env"
  shows "browser c1 = Some b \<and> Launch \<notin> set ef0"
proof -
  have ci: "closeIdle env c = (c, [])" using assms(2,3) by (simp add: closeIdle_def)
  have os: "openSession env c = (None, c, [])" using assms(2,4) by (simp add: openSession_def)
  show ?thesis
    using assms(1,2)
    by (auto simp: getCoveoTokenBody_def ci os Let_def
        dest!: deriveToken_navigates
        split: sum.splits option.splits prod.splits if_splits)
qed

lemma body_launched:
  assumes "getCoveoTokenBody env c = (r, c1, pg, ef0)"
    and "launch env = Inr b"
    and "browser c = None \<or> BROWSER_IDLE_TIMEOUT < dateNow env - browserLastUsed c \<or> \<not> isConnected env"
  shows "browser c1 = Some b \<and> Launch \<in> set ef0"
proof -
  obtain c0 ef1 where ci: "closeIdle env c = (c0, ef1)" by (cases "closeIdle env c")
  have c0: "browser c0 = None \<or> \<not> isConnected env"
    using ci assms(3) by (auto simp: closeIdle_def split: option.splits if_splits)
  then have "\<exists>err c2 ef2. openSession env c0 = (err, c2, Launch # ef2) \<and> browser c2 = Some b"
    using assms(2) by (auto simp: openSession_def split: sum.splits)
  then obtain err c2 ef2 where os: "openSession env c0 = (err, c2, Launch # ef2)" and b2: "browser c2 = Some b"
    by blast
  show ?thesis
    using assms(1) b2
    by (auto simp: getCoveoTokenBody_def ci os Let_def
        split: sum.splits option.splits prod.splits if_splits)
qed

lemma expired_reused:
  assumes "getCoveoToken env tok c = (Inl (Error ''SESSION_EXPIRED''), c', ef)"
    and "browser c = Some b" and "\<not> BROWSER_IDLE_TIMEOUT < dateNow env - browserLastUsed c"
    and "isConnected env"
  shows "Launch \<notin> set ef
         \<and> (\<exists>ef0 cl. ef = ef0 @ CloseBrowser b # cl \<and> (cl = [] \<or> (\<exists>p. cl = [ClosePage p])))"
proof -
  obtain r c1 pg ef0 where b: "getCoveoTokenBody env c = (r, c1, pg, ef0)"
    by (cases "getCoveoTokenBody env c") auto
  have c1: "browser c1 = Some b" and nl: "Launch \<notin> set ef0"
    using body_reused[OF b assms(2,3,4)] by simp_all
  have ef: "ef = ef0 @ CloseBrowser b # (case pg of Some p \<Rightarrow> [ClosePage p] | None \<Rightarrow> [])"
    using expired_shape[OF b assms(1)] c1 by simp
  have "Launch \<notin> set ef" using ef nl by (cases pg) auto
  moreover have "(case pg of Some p \<Rightarrow> [ClosePage p] | None \<Rightarrow> []) = []
      \<or> (\<exists>p. (case pg of Some p \<Rightarrow> [ClosePage p] | None \<Rightarrow> []) = [ClosePage p])"
    by (cases pg) auto
  ultimately show ?thesis using ef by blast
qed

lemma expired_launched:
  assumes "getCoveoToken env tok c = (Inl (Error ''SESSION_EXPIRED''), c', ef)"
    and "launch env = Inr b"
    and "browser c = None \<or> BROWSER_IDLE_TIMEOUT < dateNow env - browserLastUsed c \<or> \<not> isConnected env"
  shows "\<exists>ef0 cl. ef = ef0 @ CloseBrowser b # cl \<and> Launch \<in> set ef0
           \<and> (cl = [] \<or> (\<exists>p. cl = [ClosePage p]))"
proof -
  obtain r c1 pg ef0 where b: "getCoveoTokenBody env c = (r, c1, pg, ef0)"
    by (cases "getCoveoTokenBody env c") auto
  have c1: "browser c1 = Some b" and l: "Launch \<in> set ef0"
    using body_launched[OF b assms(2,3)] by simp_all
  have ef: "ef = ef0 @ CloseBrowser b # (case pg of Some p \<Rightarrow> [ClosePage p] | None \<Rightarrow> [])"
    using expired_shape[OF b assms(1)] c1 by simp
  have "(case pg of Some p \<Rightarrow> [ClosePage p] | None \<Rightarrow> []) = []
      \<or> (\<exists>p. (case pg of Some p \<Rightarrow> [ClosePage p] | None \<Rightarrow> []) = [ClosePage p])"
    by (cases pg) auto
  then show ?thesis using ef l by blast
qed

lemma fresh_session:
  assumes "browser c = None" and "launch env = Inr b" and "newContext env = Inr x"
  shows "\<exists>ef. snd (snd (getCoveoToken env tok c)) = Launch # NewContext b x # ef"
proof -
  have ci: "closeIdle env c = (c, [])" using assms(1) by (simp add: closeIdle_def)
  have os: "openSession env c =
      (seedCookies env, c\<lparr> browser := Some b, browserContext := Some x \<rparr>, [Launch, NewContext b x])"
    using assms by (simp add: openSession_def)
  show ?thesis
    by (auto simp: getCoveoToken_def getCoveoTokenBody_def ci os Let_def
        split: sum.splits option.splits prod.splits)
qed

lemma fresh_pool:
  assumes "browser c = None" and "launch env = Inr b" and "newContext env = Inr x"
    and "fst (getCoveoToken env tok c) \<noteq> Inl (Error ''SESSION_EXPIRED'')"
  shows "browser (fst (snd (getCoveoToken env tok c))) = Some b
         \<and> browserContext (fst (snd (getCoveoToken env tok c))) = Some x"
proof -
  have ci: "closeIdle env c = (c, [])" using assms(1) by (simp add: closeIdle_def)
  have os: "openSession env c =
      (seedCookies env, c\<lparr> browser := Some b, browserContext := Some x \<rparr>, [Launch, NewContext b x])"
    using assms by (simp add: openSession_def)
  show ?thesis
    using assms(4)
    by (auto simp: getCoveoToken_def getCoveoTokenBody_def ci os Let_def
        split: sum.splits option.splits prod.splits if_splits)
qed

text \<open>
  Claim C5. A client never holds a context without a browser (\<open>clientInv\<close>, true of a
  new client and kept by every call). When a call of \<open>getCoveoToken\<close> on such a client
  throws \<open>SESSION_EXPIRED\<close>, the client it leaves behind holds neither browser nor
  context. The browser it worked with has been closed before the error leaves the call,
  only the closing of the page coming after: the kept browser \<open>b\<close> when the call reused
  it (it was there, not idle and connected), in which case nothing was launched, and the
  browser \<open>b\<close> that the call launched otherwise. If the call had opened a page, its last
  two effects are closing that browser and then the page. The next call, whatever the
  environment answers, starts by launching a browser; when the launch gives \<open>b\<close> and
  \<open>newContext\<close> gives \<open>x\<close>, its effects start with the launch and the creation of
  \<open>x\<close> in \<open>b\<close>, and unless the session has expired again the client keeps \<open>b\<close> and
  \<open>x\<close>; any page it opens is opened in the context it has just created.
\<close>

theorem getCoveoToken_session_expired_teardown:
  "clientInv c \<and> getCoveoToken env tok c = (Inl (Error ''SESSION_EXPIRED''), c', ef)
   \<longrightarrow> browser c' = None \<and> browserContext c' = None
       \<and> (\<forall>b. browser c = Some b \<and> \<not> BROWSER_IDLE_TIMEOUT < dateNow env - browserLastUsed c
                \<and> isConnected env
             \<longrightarrow> Launch \<notin> set ef
                 \<and> (\<exists>ef0 cl. ef = ef0 @ CloseBrowser b # cl \<and> (cl = [] \<or> (\<exists>p. cl = [ClosePage p]))))
       \<and> (\<forall>b. launch env = Inr b
                \<and> (browser c = None \<or> BROWSER_IDLE_TIMEOUT < dateNow env - browserLastUsed c
                    \<or> \<not> isConnected env)
             \<longrightarrow> (\<exists>ef0 cl. ef = ef0 @ CloseBrowser b # cl \<and> Launch \<in> set ef0
                            \<and> (cl = [] \<or> (\<exists>p. cl = [ClosePage p]))))
       \<and> (\<forall>x p. OpenPage x p \<in> set ef \<longrightarrow> (\<exists>b ef0. ef = ef0 @ [CloseBrowser b, ClosePage p]))
       \<and> (\<exists>ef'. snd (snd (getCoveoToken env' tok' c')) = Launch # ef')
       \<and> (\<forall>b x. launch env' = Inr b \<and> newContext env' = Inr x
             \<longrightarrow> (\<exists>ef'. snd (snd (getCoveoToken env' tok' c')) = Launch # NewContext b x # ef')
                 \<and> (fst (getCoveoToken env' tok' c') \<noteq> Inl (Error ''SESSION_EXPIRED'')
                     \<longrightarrow> browser (fst (snd (getCoveoToken env' tok' c'))) = Some b
                         \<and> browserContext (fst (snd (getCoveoToken env' tok' c'))) = Some x))
       \<and> (\<forall>x p. OpenPage x p \<in> set (snd (snd (getCoveoToken env' tok' c')))
             \<longrightarrow> (\<exists>b. launch env' = Inr b \<and> newContext env' = Inr x
                    \<and> NewContext b x \<in> set (snd (snd (getCoveoToken env' tok' c')))))"
proof (intro impI)
  assume a: "clientInv c \<and> getCoveoToken env tok c = (Inl (Error ''SESSION_EXPIRED''), c', ef)"
  then have g: "getCoveoToken env tok c = (Inl (Error ''SESSION_EXPIRED''), c', ef)" by simp
  from a have st: "browser c' = None \<and> browserContext c' = None" using expired_state by blast
  have r: "\<forall>b. browser c = Some b \<and> \<not> BROWSER_IDLE_TIMEOUT < dateNow env - browserLastUsed c
                \<and> isConnected env
             \<longrightarrow> Launch \<notin> set ef
                 \<and> (\<exists>ef0 cl. ef = ef0 @ CloseBrowser b # cl \<and> (cl = [] \<or> (\<exists>p. cl = [ClosePage p])))"
    using expired_reused[OF g] by blast
  have l: "\<forall>b. launch env = Inr b
                \<and> (browser c = None \<or> BROWSER_IDLE_TIMEOUT < dateNow env - browserLastUsed c
                    \<or> \<not> isConnected env)
             \<longrightarrow> (\<exists>ef0 cl. ef = ef0 @ CloseBrowser b # cl \<and> Launch \<in> set ef0
                            \<and> (cl = [] \<or> (\<exists>p. cl = [ClosePage p])))"
    using expired_launched[OF g] by blast
  from a have e: "\<forall>x p. OpenPage x p \<in> set ef \<longrightarrow> (\<exists>b ef0. ef = ef0 @ [CloseBrowser b, ClosePage p])"
    using expired_effects by blast
  from st have n1: "\<exists>ef'. snd (snd (getCoveoToken env' tok' c')) = Launch # ef'"
    using fresh_launch by blast
  from st have n2: "\<forall>b x. launch env' = Inr b \<and> newContext env' = Inr x
             \<longrightarrow> (\<exists>ef'. snd (snd (getCoveoToken env' tok' c')) = Launch # NewContext b x # ef')
                 \<and> (fst (getCoveoToken env' tok' c') \<noteq> Inl (Error ''SESSION_EXPIRED'')
                     \<longrightarrow> browser (fst (snd (getCoveoToken env' tok' c'))) = Some b
                         \<and> browserContext (fst (snd (getCoveoToken env' tok' c'))) = Some x)"
    using fresh_session[of c' env'] fresh_pool[of c' env'] by blast
  from st have n3: "\<forall>x p. OpenPage x p \<in> set (snd (snd (getCoveoToken env' tok' c')))
             \<longrightarrow> (\<exists>b. launch env' = Inr b \<and> newContext env' = Inr x
                    \<and> NewContext b x \<in> set (snd (snd (getCoveoToken env' tok' c'))))"
    using fresh_context by blast
  from st r l e n1 n2 n3 show "browser c' = None \<and> browserContext c' = None
       \<and> (\<forall>b. browser c = Some b \<and> \<not> BROWSER_IDLE_TIMEOUT < dateNow env - browserLastUsed c
                \<and> isConnected env
             \<longrightarrow> Launch \<notin> set ef
                 \<and> (\<exists>ef0 cl. ef = ef0 @ CloseBrowser b # cl \<and> (cl = [] \<or> (\<exists>p. cl = [ClosePage p]))))
       \<and> (\<forall>b. launch env = Inr b
                \<and> (browser c = None \<or> BROWSER_IDLE_TIMEOUT < dateNow env - browserLastUsed c
                    \<or> \<not> isConnected env)
             \<longrightarrow> (\<exists>ef0 cl. ef = ef0 @ CloseBrowser b # cl \<and> Launch \<in> set ef0
                            \<and> (cl = [] \<or> (\<exists>p. cl = [ClosePage p]))))
       \<and> (\<forall>x p. OpenPage x p \<in> set ef \<longrightarrow> (\<exists>b ef0. ef = ef0 @ [CloseBrowser b, ClosePage p]))
       \<and> (\<exists>ef'. snd (snd (getCoveoToken env' tok' c')) = Launch # ef')
       \<and> (\<forall>b x. launch env' = Inr b \<and> newContext env' = Inr x
             \<longrightarrow> (\<exists>ef'. snd (snd (getCoveoToken env' tok' c')) = Launch # NewContext b x # ef')
                 \<and> (fst (getCoveoToken env' tok' c') \<noteq> Inl (Error ''SESSION_EXPIRED'')
                     \<longrightarrow> browser (fst (snd (getCoveoToken env' tok' c'))) = Some b
                         \<and> browserContext (fst (snd (getCoveoToken env' tok' c'))) = Some x))
       \<and> (\<forall>x p. OpenPage x p \<in> set (snd (snd (getCoveoToken env' tok' c')))
             \<longrightarrow> (\<exists>b. launch env' = Inr b \<and> newContext env' = Inr x
                    \<and> NewContext b x \<in> set (snd (snd (getCoveoToken env' tok' c')))))"
    by (intro conjI) blast+
qed


lemma newClient_inv: "clientInv newClient"
  by (simp add: clientInv_def newClient_def)

lemma expired_run:
  "getCoveoToken expiredTokenEnv ''sid=1'' newClient =
     (Inl (Error ''SESSION_EXPIRED''),
      \<lparr> browser = None, browserContext = None, browserLastUsed = 1700000000000 \<rparr>,
      [Launch, NewContext 1 2, OpenPage 2 3, Navigate 3 homeUrl, CloseBrowser 1, ClosePage 3])"
  by (simp add: getCoveoToken_def getCoveoTokenBody_def closeIdle_def openSession_def deriveToken_def
      expiredTokenEnv_def workingTokenEnv_def newClient_def Let_def)

lemma pooledClient_inv: "clientInv pooledClient"
  by (simp add: clientInv_def pooledClient_def)

lemma expired_reuse_run:
  "getCoveoToken expiredTokenEnv ''sid=1'' pooledClient =
     (Inl (Error ''SESSION_EXPIRED''),
      \<lparr> browser = None, browserContext = None, browserLastUsed = 1700000000000 \<rparr>,
      [OpenPage 2 3, Navigate 3 homeUrl, CloseBrowser 1, ClosePage 3])"
  by (simp add: getCoveoToken_def getCoveoTokenBody_def closeIdle_def openSession_def deriveToken_def
      expiredTokenEnv_def workingTokenEnv_def pooledClient_def BROWSER_IDLE_TIMEOUT_def Let_def)

lemma pooledClient_reused:
  "browser pooledClient = Some 1"
  "\<not> BROWSER_IDLE_TIMEOUT < dateNow expiredTokenEnv - browserLastUsed pooledClient"
  "isConnected expiredTokenEnv" "launch expiredTokenEnv = Inr 1"
  "launch workingTokenEnv = Inr 1" "newContext workingTokenEnv = Inr 2" "browser newClient = None"
  by (simp_all add: pooledClient_def expiredTokenEnv_def workingTokenEnv_def BROWSER_IDLE_TIMEOUT_def
      newClient_def)

theorem getCoveoToken_session_expired_teardown_witness:
  "clientInv newClient
   \<and> fst (getCoveoToken expiredTokenEnv ''sid=1'' newClient) = Inl (Error ''SESSION_EXPIRED'')
   \<and> browser (fst (snd (getCoveoToken expiredTokenEnv ''sid=1'' newClient))) = None
   \<and> browserContext (fst (snd (getCoveoToken expiredTokenEnv ''sid=1'' newClient))) = None
   \<and> (\<exists>ef0 cl. snd (snd (getCoveoToken expiredTokenEnv ''sid=1'' newClient)) = ef0 @ CloseBrowser 1 # cl
                \<and> Launch \<in> set ef0)
   \<and> (\<exists>ef'. snd (snd (getCoveoToken workingTokenEnv ''sid=2''
                 (fst (snd (getCoveoToken expiredTokenEnv ''sid=1'' newClient)))))
              = Launch # NewContext 1 2 # ef')
   \<and> clientInv pooledClient
   \<and> fst (getCoveoToken expiredTokenEnv ''sid=1'' pooledClient) = Inl (Error ''SESSION_EXPIRED'')
   \<and> Launch \<notin> set (snd (snd (getCoveoToken expiredTokenEnv ''sid=1'' pooledClient)))
   \<and> (\<exists>ef0 cl. snd (snd (getCoveoToken expiredTokenEnv ''sid=1'' pooledClient)) = ef0 @ CloseBrowser 1 # cl)"
proof -
  let ?c' = "\<lparr> browser = None, browserContext = None, browserLastUsed = 1700000000000 \<rparr>"
  let ?ef1 = "[Launch, NewContext 1 2, OpenPage 2 3, Navigate 3 homeUrl, CloseBrowser 1, ClosePage 3]"
  let ?ef2 = "[OpenPage 2 3, Navigate 3 homeUrl, CloseBrowser 1, ClosePage 3]"
  have a1: "clientInv newClient
      \<and> getCoveoToken expiredTokenEnv ''sid=1'' newClient = (Inl (Error ''SESSION_EXPIRED''), ?c', ?ef1)"
    using newClient_inv expired_run by simp
  have a2: "clientInv pooledClient
      \<and> getCoveoToken expiredTokenEnv ''sid=1'' pooledClient = (Inl (Error ''SESSION_EXPIRED''), ?c', ?ef2)"
    using pooledClient_inv expired_reuse_run by simp
  note t1 = mp[OF getCoveoToken_session_expired_teardown[of newClient expiredTokenEnv "''sid=1''" ?c' ?ef1
        workingTokenEnv "''sid=2''"] a1]
  note t2 = mp[OF getCoveoToken_session_expired_teardown[of pooledClient expiredTokenEnv "''sid=1''" ?c' ?ef2
        workingTokenEnv "''sid=2''"] a2]
  have l: "\<exists>ef0 cl. ?ef1 = ef0 @ CloseBrowser 1 # cl \<and> Launch \<in> set ef0"
    using t1 pooledClient_reused(4,7) by blast
  have n: "\<exists>ef'. snd (snd (getCoveoToken workingTokenEnv ''sid=2'' ?c')) = Launch # NewContext 1 2 # ef'"
    using t1 pooledClient_reused(5,6) by blast
  have r: "Launch \<notin> set ?ef2 \<and> (\<exists>ef0 cl. ?ef2 = ef0 @ CloseBrowser 1 # cl)"
    using t2 pooledClient_reused(1,2,3) by blast
  show ?thesis
    using l n r newClient_inv pooledClient_inv by (simp add: expired_run expired_reuse_run)
qed


lemma searchFailed_expired:
  "searchFailed (Error ''SESSION_EXPIRED'') = Error ''SAP Notes search failed: SESSION_EXPIRED''"
  by (simp add: searchFailed_def)

text \<open>
  Claim C4 fails on the code. A search in a vendor session that has expired: token
  derivation closes the browser and throws \<open>SESSION_EXPIRED\<close> (the comment of line 1046:
  throw special error and close browser to force re-auth). The one \<open>catch\<close> of
  \<open>searchNotes\<close> treats it like every other error and throws a new \<open>Error\<close> with the
  message \<open>SAP Notes search failed: SESSION_EXPIRED\<close>, which is not the signal. The
  handler of the tool has called \<open>ensureAuthenticated\<close> once, before the search; it
  answers with the text \<open>Search failed: SAP Notes search failed: SESSION_EXPIRED\<close>,
  and neither authenticates again nor searches again: no request reaches the search API.
\<close>

theorem searchNotes_wraps_session_expired:
  "fst (getCoveoToken (derivation expiredSearchEnv) ''sid=1'' newClient) = Inl (Error ''SESSION_EXPIRED'')
   \<and> fst (searchNotes expiredSearchEnv ''2744792'' ''sid=1'' 10 newClient) \<noteq> Inl (Error ''SESSION_EXPIRED'')
   \<and> fst (searchNotes expiredSearchEnv ''2744792'' ''sid=1'' 10 newClient)
       = Inl (Error ''SAP Notes search failed: SESSION_EXPIRED'')
   \<and> sap_note_search expiredHandlerEnv (JObj [(''q'', JStr ''2744792'')]) newClient
       = (ToolError ''Search failed: SAP Notes search failed: SESSION_EXPIRED'',
          \<lparr> browser = None, browserContext = None, browserLastUsed = 1700000000000 \<rparr>,
          [EnsureAuthenticated, Launch, NewContext 1 2, OpenPage 2 3, Navigate 3 homeUrl,
           CloseBrowser 1, ClosePage 3])"
  by (simp add: sap_note_search_def validateSearchArgs_def expiredHandlerEnv_def searchNotes_def
      expiredSearchEnv_def expired_run searchFailed_def)

text \<open>
  The same for every search. Whenever token derivation throws \<open>SESSION_EXPIRED\<close>,
  \<open>searchNotes\<close> throws the \<open>Error\<close> with the message
  \<open>SAP Notes search failed: SESSION_EXPIRED\<close>, sends no request to the search API and
  leaves the client as token derivation left it; the tool handler answers with the error
  text \<open>Search failed: SAP Notes search failed: SESSION_EXPIRED\<close>, having called
  \<open>ensureAuthenticated\<close> once, before the search, and \<open>searchNotes\<close> once.
\<close>

theorem searchNotes_session_expired:
  "fst (getCoveoToken (derivation (searching env)) tok c) = Inl (Error ''SESSION_EXPIRED'')
   \<longrightarrow> searchNotes (searching env) q tok n c =
         (Inl (Error ''SAP Notes search failed: SESSION_EXPIRED''),
          snd (getCoveoToken (derivation (searching env)) tok c))
       \<and> (ensureAuthenticatedResult env = Inr tok
           \<longrightarrow> sap_note_search env (JObj [(''q'', JStr q)]) c =
                 (ToolError ''Search failed: SAP Notes search failed: SESSION_EXPIRED'',
                  fst (snd (getCoveoToken (derivation (searching env)) tok c)),
                  EnsureAuthenticated # snd (snd (getCoveoToken (derivation (searching env)) tok c))))"
proof (intro impI conjI)
  assume a: "fst (getCoveoToken (derivation (searching env)) tok c) = Inl (Error ''SESSION_EXPIRED'')"
  obtain r c1 ef where g: "getCoveoToken (derivation (searching env)) tok c = (r, c1, ef)"
    by (cases "getCoveoToken (derivation (searching env)) tok c") auto
  with a have r: "r = Inl (Error ''SESSION_EXPIRED'')" by simp
  show s: "searchNotes (searching env) q tok n c =
         (Inl (Error ''SAP Notes search failed: SESSION_EXPIRED''),
          snd (getCoveoToken (derivation (searching env)) tok c))"
    by (simp add: searchNotes_def g r searchFailed_expired)
  assume t: "ensureAuthenticatedResult env = Inr tok"
  have v: "validateSearchArgs (JObj [(''q'', JStr q)]) = Inr (q, ''EN'')"
    by (simp add: validateSearchArgs_def)
  show "sap_note_search env (JObj [(''q'', JStr q)]) c =
                 (ToolError ''Search failed: SAP Notes search failed: SESSION_EXPIRED'',
                  fst (snd (getCoveoToken (derivation (searching env)) tok c)),
                  EnsureAuthenticated # snd (snd (getCoveoToken (derivation (searching env)) tok c)))"
    by (simp add: sap_note_search_def v t searchNotes_def g r searchFailed_expired)
qed

lemma expiredHandlerEnv_simps:
  "derivation (searching expiredHandlerEnv) = expiredTokenEnv"
  "ensureAuthenticatedResult expiredHandlerEnv = Inr ''sid=1''"
  by (simp_all add: expiredHandlerEnv_def expiredSearchEnv_def)

theorem searchNotes_session_expired_witness:
  "fst (getCoveoToken (derivation (searching expiredHandlerEnv)) ''sid=1'' newClient)
     = Inl (Error ''SESSION_EXPIRED'')
   \<and> fst (searchNotes (searching expiredHandlerEnv) ''2744792'' ''sid=1'' 10 newClient)
     = Inl (Error ''SAP Notes search failed: SESSION_EXPIRED'')
   \<and> snd (snd (searchNotes (searching expiredHandlerEnv) ''2744792'' ''sid=1'' 10 newClient))
     = [Launch, NewContext 1 2, OpenPage 2 3, Navigate 3 homeUrl, CloseBrowser 1, ClosePage 3]
   \<and> fst (sap_note_search expiredHandlerEnv (JObj [(''q'', JStr ''2744792'')]) newClient)
     = ToolError ''Search failed: SAP Notes search failed: SESSION_EXPIRED''"
  using searchNotes_session_expired[of expiredHandlerEnv "''sid=1''" newClient "''2744792''" 10]
  by (simp add: expiredHandlerEnv_simps expired_run)

lemma searchPageUrl_value:
  "searchPageUrl =
     ''https://me.sap.com/knowledge/search/%7B%22q%22%3A%22test%22%2C%22tab%22%3A%22Support%22%2C%22f%22%3A%7B%22documenttype%22%3A%5B%22SAP%20Note%22%5D%7D%7D''"
  by code_simp

lemma working_run:
  "getCoveoToken workingTokenEnv ''sid=1'' newClient =
     (Inr ''eyJ.bearer'',
      \<lparr> browser = Some 1, browserContext = Some 2, browserLastUsed = 1700000000000 \<rparr>,
      [Launch, NewContext 1 2, OpenPage 2 3, Navigate 3 homeUrl, Navigate 3 searchPageUrl, ClosePage 3])"
  by (simp add: getCoveoToken_def getCoveoTokenBody_def closeIdle_def openSession_def deriveToken_def
      workingTokenEnv_def newClient_def Let_def)

text \<open>
  Claim C7 fails on the code: the input schema of \<open>sap_note_search\<close> accepts the empty
  query, and the handler authenticates, derives a token in the browser and posts the empty
  query to the search API.
\<close>

theorem sap_note_search_accepts_empty_query:
  "validateSearchArgs (JObj [(''q'', JStr [])]) = Inr ([], ''EN'')
   \<and> sap_note_search workingHandlerEnv (JObj [(''q'', JStr [])]) newClient =
       (ToolOk \<lparr> results = [], totalResults = JNum 0, query = [] \<rparr>,
        \<lparr> browser = Some 1, browserContext = Some 2, browserLastUsed = 1700000000000 \<rparr>,
        [EnsureAuthenticated, Launch, NewContext 1 2, OpenPage 2 3, Navigate 3 homeUrl,
         Navigate 3 searchPageUrl, ClosePage 3, CoveoPost [] 10 ''eyJ.bearer''])"
  by (simp add: validateSearchArgs_def sap_note_search_def workingHandlerEnv_def searchNotes_def
      workingSearchEnv_def working_run emptyHits_def ok_def bindE_def parseCoveoResponse_def
      jsOr_def searchOutput_def validSearchOutput_def)

section \<open>Properties of the authenticator\<close>

lemmas auth_defs = newWorld_def ensureAuthenticated_def afterGuard_def afterLogin_def
  isTokenValid_def notAuthenticated_def authenticate_def loadCachedToken_def settle_def
  awaitPromise_def resume_def finishLogin_def cleanup_def isTokenValidFromCache_def
  bufferMs_def cookieString_def loginsInFlight_def loginsStarted_def Let_def

text \<open>
  Claim C2 fails on the code. One call on a cold start whose login fails (the certificate
  file is missing): the state is cleared and the call throws the typed error, but
  \<open>authPromise\<close> still holds the rejected promise, because the \<open>await\<close> of line 245 throws
  before line 246 can clear it. A second call then awaits that promise at line 235 and
  throws the same error; no second login starts.
\<close>

theorem failed_login_leaves_handle:
  "authState (run [Call, LoginDone 0 (LoginThrows missingCertificate), Microtask] coldStart) = notAuthenticated
   \<and> callers (run [Call, LoginDone 0 (LoginThrows missingCertificate), Microtask] coldStart)
       = [Threw missingCertificate]
   \<and> authPromise (run [Call, LoginDone 0 (LoginThrows missingCertificate), Microtask] coldStart) = Some 0
   \<and> callers (run [Call, LoginDone 0 (LoginThrows missingCertificate), Microtask, Call, Microtask] coldStart)
       = [Threw missingCertificate, Threw missingCertificate]
   \<and> loginsStarted (run [Call, LoginDone 0 (LoginThrows missingCertificate), Microtask, Call, Microtask] coldStart) = 1"
  by (simp add: coldStart_def missingCertificate_def auth_defs)

text \<open>
  Claim C1 fails on the code. Three calls on a cold start, issued before any resolves; the
  login ends with an empty cookie jar. The first call throws \<open>no token received\<close>; the
  second and the third, woken from the guard of line 235, find no valid token and each
  start a login of their own, so two logins are in flight at once. When these end, the
  two calls return different session material, and three logins have run. The same
  happens with a maximal session age of zero hours, where the first call returns its token
  and the other two each start a login.
\<close>

theorem empty_cookie_jar_breaks_single_flight:
  "callers (run [Call, Call, Call, LoginDone 0 (LoginCookies [] True), Microtask, Microtask, Microtask] coldStart)
     = [Threw (Error ''Authentication failed - no token received''), AwaitLogin 1, AwaitLogin 2]
   \<and> loginsInFlight (run [Call, Call, Call, LoginDone 0 (LoginCookies [] True),
                            Microtask, Microtask, Microtask] coldStart) = 2
   \<and> callers (run [Call, Call, Call, LoginDone 0 (LoginCookies [] True), Microtask, Microtask, Microtask,
                    LoginDone 1 (LoginCookies [sessionCookie ''1''] True), Microtask,
                    LoginDone 2 (LoginCookies [sessionCookie ''2''] True), Microtask] coldStart)
     = [Threw (Error ''Authentication failed - no token received''), Returned ''sid=1'', Returned ''sid=2'']
   \<and> loginsStarted (run [Call, Call, Call, LoginDone 0 (LoginCookies [] True), Microtask, Microtask, Microtask,
                    LoginDone 1 (LoginCookies [sessionCookie ''1''] True), Microtask,
                    LoginDone 2 (LoginCookies [sessionCookie ''2''] True), Microtask] coldStart) = 3
   \<and> callers (run [Call, Call, Call, LoginDone 0 (LoginCookies [sessionCookie ''0''] True),
                    Microtask, Microtask, Microtask] zeroAgeStart)
     = [Returned ''sid=0'', AwaitLogin 1, AwaitLogin 2]
   \<and> loginsInFlight (run [Call, Call, Call, LoginDone 0 (LoginCookies [sessionCookie ''0''] True),
                           Microtask, Microtask, Microtask] zeroAgeStart) = 2"
  by (simp add: coldStart_def zeroAgeStart_def sessionCookie_def auth_defs)

lemma isTokenValid_fresh: "isTokenValid w = memoryFresh w"
  by (auto simp: isTokenValid_def memoryFresh_def sessionFresh_def bufferMs_def split: option.splits)

lemma fromCache_fresh:
  "isTokenValidFromCache now c = sessionFresh now (access_token c) (cachedExpiresAt c)"
  by (auto simp: isTokenValidFromCache_def sessionFresh_def bufferMs_def)

lemma isTokenValid_callers: "isTokenValid (w\<lparr> callers := cs \<rparr>) = isTokenValid w"
  by (simp add: isTokenValid_def split: option.splits)

lemma call_disk_hit:
  assumes "authPromise w = None" and "\<not> isTokenValid w" and "tokenCacheFile w = Some c"
    and "isTokenValidFromCache (clock w) c"
  shows "ensureAuthenticated w =
           w\<lparr> authState := \<lparr> token = Some (access_token c), expiresAt = Some (cachedExpiresAt c),
                              isAuthenticated = True \<rparr>,
              authPromise := Some (length (promises w)),
              promises := promises w @ [Fulfilled],
              callers := callers w @ [AwaitLogin (length (promises w))],
              microtasks := microtasks w @ [length (callers w)] \<rparr>"
  using assms
  by (simp add: ensureAuthenticated_def afterGuard_def isTokenValid_callers settle_def Let_def
      authenticate_def loadCachedToken_def awaitPromise_def)

lemma call_miss:
  assumes "authPromise w = None" and "\<not> isTokenValid w"
    and "\<forall>c. tokenCacheFile w = Some c \<longrightarrow> \<not> isTokenValidFromCache (clock w) c"
  shows "ensureAuthenticated w =
           w\<lparr> authPromise := Some (length (promises w)),
              promises := promises w @ [Pending [length (callers w)]],
              callers := callers w @ [AwaitLogin (length (promises w))],
              history := history w @ [LoginStarted (length (promises w))] \<rparr>"
  using assms
  by (cases "tokenCacheFile w")
     (simp_all add: ensureAuthenticated_def afterGuard_def isTokenValid_callers settle_def Let_def
      authenticate_def loadCachedToken_def awaitPromise_def)

lemma disk_hit:
  assumes "idle w" and "\<not> memoryFresh w" and "tokenCacheFile w = Some c"
    and "sessionFresh (clock w) (access_token c) (cachedExpiresAt c)"
  shows "returnsCached w (access_token c)"
proof -
  have ne: "access_token c \<noteq> []" using assms(4) by (simp add: sessionFresh_def)
  have "ensureAuthenticated w =
           w\<lparr> authState := \<lparr> token = Some (access_token c), expiresAt = Some (cachedExpiresAt c),
                              isAuthenticated = True \<rparr>,
              authPromise := Some (length (promises w)),
              promises := promises w @ [Fulfilled],
              callers := callers w @ [AwaitLogin (length (promises w))],
              microtasks := microtasks w @ [length (callers w)] \<rparr>"
    using assms call_disk_hit by (simp add: idle_def isTokenValid_fresh fromCache_fresh)
  then show ?thesis
    using assms(1) ne
    by (simp add: returnsCached_def idle_def resume_def afterLogin_def settle_def Let_def)
qed

lemma memoryFresh_callers: "memoryFresh (w\<lparr> callers := cs \<rparr>) = memoryFresh w"
  by (simp add: memoryFresh_def)

lemma resume_empty: "microtasks v = [] \<Longrightarrow> resume v = v"
  by (simp add: resume_def)

lemma guard_memory:
  assumes "callers v = cs @ [x]" and "isTokenValid v" and "token (authState v) = Some t"
  shows "afterGuard (length cs) v = v\<lparr> callers := cs @ [Returned t] \<rparr>"
  using assms by (simp add: afterGuard_def settle_def)

lemma guard_disk:
  assumes "callers v = cs @ [x]" and "microtasks v = []" and "\<not> isTokenValid v"
    and "tokenCacheFile v = Some c" and "isTokenValidFromCache (clock v) c"
  shows "resume (afterGuard (length cs) v) =
           v\<lparr> authState := \<lparr> token = Some (access_token c), expiresAt = Some (cachedExpiresAt c),
                              isAuthenticated = True \<rparr>,
              authPromise := None,
              promises := promises v @ [Fulfilled],
              callers := cs @ [Returned (access_token c)],
              microtasks := [] \<rparr>"
proof -
  have ne: "access_token c \<noteq> []" using assms(5) by (simp add: isTokenValidFromCache_def)
  have "afterGuard (length cs) v =
           v\<lparr> authState := \<lparr> token = Some (access_token c), expiresAt = Some (cachedExpiresAt c),
                              isAuthenticated = True \<rparr>,
              authPromise := Some (length (promises v)),
              promises := promises v @ [Fulfilled],
              callers := cs @ [AwaitLogin (length (promises v))],
              microtasks := [length cs] \<rparr>"
    using assms
    by (simp add: afterGuard_def settle_def authenticate_def loadCachedToken_def awaitPromise_def Let_def)
  then show ?thesis
    using ne by (simp add: resume_def afterLogin_def settle_def Let_def)
qed

lemma guard_miss:
  assumes "callers v = cs @ [x]" and "\<not> isTokenValid v"
    and "\<forall>c. tokenCacheFile v = Some c \<longrightarrow> \<not> isTokenValidFromCache (clock v) c"
  shows "afterGuard (length cs) v =
           v\<lparr> authPromise := Some (length (promises v)),
              promises := promises v @ [Pending [length cs]],
              callers := cs @ [AwaitLogin (length (promises v))],
              history := history v @ [LoginStarted (length (promises v))] \<rparr>"
  using assms
  by (cases "tokenCacheFile v")
     (simp_all add: afterGuard_def settle_def authenticate_def loadCachedToken_def awaitPromise_def Let_def)

lemma guard_settles:
  assumes "callers v = cs @ [x]" and "microtasks v = []"
  shows "microtasks (resume (afterGuard (length cs) v)) = []"
proof (cases "isTokenValid v")
  case True
  then obtain t where "token (authState v) = Some t"
    by (auto simp: isTokenValid_def split: option.splits)
  then show ?thesis using guard_memory[OF assms(1) True] assms(2) by (simp add: resume_empty)
next
  case False
  show ?thesis
  proof (cases "\<exists>c. tokenCacheFile v = Some c \<and> isTokenValidFromCache (clock v) c")
    case True
    then obtain c where "tokenCacheFile v = Some c" "isTokenValidFromCache (clock v) c" by blast
    then show ?thesis using guard_disk[OF assms False] by simp
  next
    case no: False
    then have "\<forall>c. tokenCacheFile v = Some c \<longrightarrow> \<not> isTokenValidFromCache (clock v) c" by blast
    then show ?thesis using guard_miss[OF assms(1) False] assms(2) by (simp add: resume_empty)
  qed
qed

text \<open>The world in which the call goes on after the guard.\<close>

lemma passes_guard:
  assumes "quiet w" and "staleError w = None"
  shows "\<exists>x. afterCall w = resume (afterGuard (length (callers w)) (w\<lparr> callers := callers w @ [x] \<rparr>))"
proof (cases "authPromise w")
  case None
  have m: "microtasks w = []" using assms(1) by (simp add: quiet_def)
  have e: "ensureAuthenticated w = afterGuard (length (callers w)) (w\<lparr> callers := callers w @ [Running] \<rparr>)"
    using None by (simp add: ensureAuthenticated_def Let_def)
  have "microtasks (resume (afterGuard (length (callers w)) (w\<lparr> callers := callers w @ [Running] \<rparr>))) = []"
    using guard_settles[of "w\<lparr> callers := callers w @ [Running] \<rparr>" "callers w" Running] m by simp
  then have "afterCall w = resume (afterGuard (length (callers w)) (w\<lparr> callers := callers w @ [Running] \<rparr>))"
    by (simp add: afterCall_def e resume_empty)
  then show ?thesis by blast
next
  case (Some p)
  with assms have f: "promises w ! p = Fulfilled" and m: "microtasks w = []"
    by (auto simp: quiet_def staleError_def split: promise.splits)
  have e: "ensureAuthenticated w = w\<lparr> callers := callers w @ [AwaitGuard p], microtasks := [length (callers w)] \<rparr>"
    using Some f m by (simp add: ensureAuthenticated_def awaitPromise_def settle_def Let_def)
  have v: "w\<lparr> callers := callers w @ [AwaitGuard p], microtasks := [] \<rparr> = w\<lparr> callers := callers w @ [AwaitGuard p] \<rparr>"
    using m by simp
  have r: "resume (w\<lparr> callers := callers w @ [AwaitGuard p], microtasks := [length (callers w)] \<rparr>)
      = afterGuard (length (callers w)) (w\<lparr> callers := callers w @ [AwaitGuard p] \<rparr>)"
    using f v by (simp add: resume_def Let_def)
  have "afterCall w = resume (afterGuard (length (callers w)) (w\<lparr> callers := callers w @ [AwaitGuard p] \<rparr>))"
    by (simp add: afterCall_def e r)
  then show ?thesis by blast
qed

lemma memory_settles:
  assumes "quiet w" and "staleError w = None" and "memoryFresh w" and "token (authState w) = Some t"
  shows "settlesCached w t"
proof -
  obtain x where a: "afterCall w = resume (afterGuard (length (callers w)) (w\<lparr> callers := callers w @ [x] \<rparr>))"
    using passes_guard[OF assms(1,2)] by blast
  have m: "microtasks w = []" using assms(1) by (simp add: quiet_def)
  have "afterGuard (length (callers w)) (w\<lparr> callers := callers w @ [x] \<rparr>)
          = w\<lparr> callers := callers w @ [x] \<rparr>\<lparr> callers := callers w @ [Returned t] \<rparr>"
  proof -
    have iv: "isTokenValid (w\<lparr> callers := callers w @ [x] \<rparr>)"
      using assms(3) by (simp add: isTokenValid_fresh memoryFresh_callers)
    show ?thesis
      using guard_memory[of "w\<lparr> callers := callers w @ [x] \<rparr>" "callers w" x t, OF _ iv] assms(4)
      by simp
  qed
  then show ?thesis using m by (simp add: settlesCached_def a resume_empty)
qed

lemma disk_settles:
  assumes "quiet w" and "staleError w = None" and "\<not> memoryFresh w" and "tokenCacheFile w = Some c"
    and "sessionFresh (clock w) (access_token c) (cachedExpiresAt c)"
  shows "settlesCached w (access_token c)"
proof -
  obtain x where a: "afterCall w = resume (afterGuard (length (callers w)) (w\<lparr> callers := callers w @ [x] \<rparr>))"
    using passes_guard[OF assms(1,2)] by blast
  have m: "microtasks w = []" using assms(1) by (simp add: quiet_def)
  have iv: "\<not> isTokenValid (w\<lparr> callers := callers w @ [x] \<rparr>)"
    using assms(3) by (simp add: isTokenValid_fresh memoryFresh_callers)
  have fc: "isTokenValidFromCache (clock (w\<lparr> callers := callers w @ [x] \<rparr>)) c"
    using assms(5) by (simp add: fromCache_fresh)
  have "resume (afterGuard (length (callers w)) (w\<lparr> callers := callers w @ [x] \<rparr>)) =
           w\<lparr> callers := callers w @ [x] \<rparr>
            \<lparr> authState := \<lparr> token = Some (access_token c), expiresAt = Some (cachedExpiresAt c),
                              isAuthenticated = True \<rparr>,
              authPromise := None,
              promises := promises w @ [Fulfilled],
              callers := callers w @ [Returned (access_token c)],
              microtasks := [] \<rparr>"
    using guard_disk[of "w\<lparr> callers := callers w @ [x] \<rparr>" "callers w" x c, OF _ _ iv _ fc] assms(4) m
    by simp
  then show ?thesis by (simp add: settlesCached_def a)
qed

lemma miss_settles:
  assumes "quiet w" and "staleError w = None" and "\<not> memoryFresh w" and "\<not> diskFresh w"
  shows "settlesLogin w"
proof -
  obtain x where a: "afterCall w = resume (afterGuard (length (callers w)) (w\<lparr> callers := callers w @ [x] \<rparr>))"
    using passes_guard[OF assms(1,2)] by blast
  have m: "microtasks w = []" using assms(1) by (simp add: quiet_def)
  have "afterGuard (length (callers w)) (w\<lparr> callers := callers w @ [x] \<rparr>) =
           w\<lparr> callers := callers w @ [x] \<rparr>
            \<lparr> authPromise := Some (length (promises w)),
              promises := promises w @ [Pending [length (callers w)]],
              callers := callers w @ [AwaitLogin (length (promises w))],
              history := history w @ [LoginStarted (length (promises w))] \<rparr>"
  proof -
    have iv: "\<not> isTokenValid (w\<lparr> callers := callers w @ [x] \<rparr>)"
      using assms(3) by (simp add: isTokenValid_fresh memoryFresh_callers)
    have nc: "\<forall>c. tokenCacheFile (w\<lparr> callers := callers w @ [x] \<rparr>) = Some c
                \<longrightarrow> \<not> isTokenValidFromCache (clock (w\<lparr> callers := callers w @ [x] \<rparr>)) c"
      using assms(4) by (simp add: fromCache_fresh diskFresh_def)
    show ?thesis
      using guard_miss[of "w\<lparr> callers := callers w @ [x] \<rparr>" "callers w" x, OF _ iv nc]
      by simp
  qed
  then show ?thesis using m by (simp add: settlesLogin_def a resume_empty)
qed

lemma stale_rethrows:
  assumes "quiet w" and "staleError w = Some e"
  shows "rethrows w e"
proof -
  obtain p where p: "authPromise w = Some p" and r: "promises w ! p = Rejected e"
    using assms(2) by (auto simp: staleError_def split: option.splits promise.splits)
  have m: "microtasks w = []" using assms(1) by (simp add: quiet_def)
  have e: "ensureAuthenticated w = w\<lparr> callers := callers w @ [AwaitGuard p], microtasks := [length (callers w)] \<rparr>"
    using p r m by (simp add: ensureAuthenticated_def awaitPromise_def settle_def Let_def)
  have "resume (w\<lparr> callers := callers w @ [AwaitGuard p], microtasks := [length (callers w)] \<rparr>)
          = w\<lparr> callers := callers w @ [Threw e], microtasks := [] \<rparr>"
    using r by (simp add: resume_def settle_def Let_def)
  then show ?thesis by (simp add: rethrows_def afterCall_def e resume_empty)
qed

lemma settlesLogin_not_cached: "settlesLogin w \<Longrightarrow> \<not> settlesCached w t"
  by (auto simp: settlesLogin_def settlesCached_def)

lemma rethrows_not_cached: "rethrows w e \<Longrightarrow> \<not> settlesCached w t"
  by (auto simp: rethrows_def settlesCached_def)

text \<open>
  Claim C3, as amended. A session is fresh when its material is not empty and
  \<open>now < expiresAt - 5 minutes\<close>. On a quiet authenticator (no call waits for its turn
  and \<open>authPromise\<close> holds no pending login), a call of \<open>ensureAuthenticated\<close> returns
  cached session material and starts no login if and only if \<open>authPromise\<close> does not
  hold the rejected promise of a failed login and the record in memory or the record in
  the cache file is fresh. It then returns the material of the record in memory when that
  one is fresh, of the file otherwise; when neither is fresh it starts a login and waits
  for it. While \<open>authPromise\<close> holds a rejected promise the call throws the error of
  that promise and starts no login, whatever is cached. With \<open>expiresAt = now + 1 hour\<close>
  the cached token is returned, with \<open>expiresAt = now + 3 minutes\<close> a login starts: both
  instances are proved after the theorem.
\<close>

theorem ensureAuthenticated_uses_fresh_cache:
  "quiet w \<longrightarrow>
     ((\<exists>t. settlesCached w t) \<longleftrightarrow> staleError w = None \<and> (memoryFresh w \<or> diskFresh w))
     \<and> (\<forall>e. staleError w = Some e \<longrightarrow> rethrows w e)
     \<and> (\<forall>t. staleError w = None \<and> memoryFresh w \<and> token (authState w) = Some t \<longrightarrow> settlesCached w t)
     \<and> (\<forall>c. staleError w = None \<and> \<not> memoryFresh w \<and> diskFresh w \<and> tokenCacheFile w = Some c
            \<longrightarrow> settlesCached w (access_token c))
     \<and> (staleError w = None \<and> \<not> memoryFresh w \<and> \<not> diskFresh w \<longrightarrow> settlesLogin w)"
proof (intro impI conjI allI)
  assume q: "quiet w"
  show "(\<exists>t. settlesCached w t) \<longleftrightarrow> staleError w = None \<and> (memoryFresh w \<or> diskFresh w)"
  proof
    assume r: "\<exists>t. settlesCached w t"
    have s: "staleError w = None"
    proof (rule ccontr)
      assume "staleError w \<noteq> None"
      then obtain e where "staleError w = Some e" by auto
      then have "rethrows w e" using stale_rethrows[OF q] by blast
      with r show False using rethrows_not_cached by blast
    qed
    have "memoryFresh w \<or> diskFresh w"
    proof (rule ccontr)
      assume "\<not> (memoryFresh w \<or> diskFresh w)"
      then have "settlesLogin w" using miss_settles[OF q s] by blast
      with r show False using settlesLogin_not_cached by blast
    qed
    with s show "staleError w = None \<and> (memoryFresh w \<or> diskFresh w)" by blast
  next
    assume a: "staleError w = None \<and> (memoryFresh w \<or> diskFresh w)"
    show "\<exists>t. settlesCached w t"
    proof (cases "memoryFresh w")
      case True
      then obtain t where "token (authState w) = Some t" by (auto simp: memoryFresh_def)
      with a True show ?thesis using memory_settles[OF q] by blast
    next
      case False
      with a obtain c where "tokenCacheFile w = Some c"
          "sessionFresh (clock w) (access_token c) (cachedExpiresAt c)"
        by (auto simp: diskFresh_def)
      with a False show ?thesis using disk_settles[OF q] by blast
    qed
  qed
next
  fix e assume "quiet w" "staleError w = Some e"
  then show "rethrows w e" using stale_rethrows by blast
next
  fix t assume "quiet w" "staleError w = None \<and> memoryFresh w \<and> token (authState w) = Some t"
  then show "settlesCached w t" using memory_settles by blast
next
  fix c assume "quiet w" "staleError w = None \<and> \<not> memoryFresh w \<and> diskFresh w \<and> tokenCacheFile w = Some c"
  then show "settlesCached w (access_token c)" using disk_settles by (auto simp: diskFresh_def)
next
  assume "quiet w" "staleError w = None \<and> \<not> memoryFresh w \<and> \<not> diskFresh w"
  then show "settlesLogin w" using miss_settles by blast
qed


lemma hour_fresh:
  "quiet (coldStart\<lparr> authState := session (1700000000000 + 60 * 60 * 1000) \<rparr>)
   \<and> staleError (coldStart\<lparr> authState := session (1700000000000 + 60 * 60 * 1000) \<rparr>) = None
   \<and> memoryFresh (coldStart\<lparr> authState := session (1700000000000 + 60 * 60 * 1000) \<rparr>)
   \<and> token (authState (coldStart\<lparr> authState := session (1700000000000 + 60 * 60 * 1000) \<rparr>)) = Some ''sid=1''"
  by (simp add: quiet_def staleError_def memoryFresh_def sessionFresh_def coldStart_def newWorld_def session_def)

lemma minutes_stale:
  "quiet (coldStart\<lparr> authState := session (1700000000000 + 3 * 60 * 1000) \<rparr>)
   \<and> staleError (coldStart\<lparr> authState := session (1700000000000 + 3 * 60 * 1000) \<rparr>) = None
   \<and> \<not> memoryFresh (coldStart\<lparr> authState := session (1700000000000 + 3 * 60 * 1000) \<rparr>)
   \<and> \<not> diskFresh (coldStart\<lparr> authState := session (1700000000000 + 3 * 60 * 1000) \<rparr>)"
  by (simp add: quiet_def staleError_def memoryFresh_def diskFresh_def sessionFresh_def coldStart_def
      newWorld_def session_def)

lemma staleHandle_fields:
  "quiet staleHandle" "staleError staleHandle = Some missingCertificate" "diskFresh staleHandle"
  "loginsInFlight staleHandle = 0"
  by (simp_all add: quiet_def staleError_def diskFresh_def sessionFresh_def staleHandle_def coldStart_def
      savedSession_def missingCertificate_def auth_defs)

theorem ensureAuthenticated_uses_fresh_cache_witness:
  "settlesCached (coldStart\<lparr> authState := session (1700000000000 + 60 * 60 * 1000) \<rparr>) ''sid=1''
   \<and> settlesLogin (coldStart\<lparr> authState := session (1700000000000 + 3 * 60 * 1000) \<rparr>)
   \<and> quiet staleHandle \<and> diskFresh staleHandle \<and> loginsInFlight staleHandle = 0
   \<and> rethrows staleHandle missingCertificate
   \<and> \<not> (\<exists>t. settlesCached staleHandle t)"
  using ensureAuthenticated_uses_fresh_cache[of "coldStart\<lparr> authState := session (1700000000000 + 60 * 60 * 1000) \<rparr>"]
    ensureAuthenticated_uses_fresh_cache[of "coldStart\<lparr> authState := session (1700000000000 + 3 * 60 * 1000) \<rparr>"]
    ensureAuthenticated_uses_fresh_cache[of staleHandle]
    hour_fresh minutes_stale staleHandle_fields
  by (metis option.distinct(1))

text \<open>
  The claim C3 as first stated fails: after a login that ended with an empty cookie jar
  the record in memory and in the file satisfies \<open>now < expiresAt - 5 minutes\<close>, and the
  next call starts a login all the same.
\<close>

theorem empty_session_material_triggers_login:
  "idle (run [Call, LoginDone 0 (LoginCookies [] True), Microtask] coldStart)
   \<and> expiresAt (authState (run [Call, LoginDone 0 (LoginCookies [] True), Microtask] coldStart))
       = Some (1700000000000 + 12 * 60 * 60 * 1000)
   \<and> int (clock (run [Call, LoginDone 0 (LoginCookies [] True), Microtask] coldStart))
       < (1700000000000 + 12 * 60 * 60 * 1000) - 5 * 60 * 1000
   \<and> startsLogin (run [Call, LoginDone 0 (LoginCookies [] True), Microtask] coldStart)"
  by (simp add: idle_def startsLogin_def coldStart_def auth_defs)

lemma destroy_state:
  "snd (destroy r w) =
     (case a_browser w of
        None \<Rightarrow> w\<lparr> authState := notAuthenticated \<rparr>
      | Some b \<Rightarrow> w\<lparr> authState := notAuthenticated, a_browser := None, a_context := None, a_page := None,
                     history := history w @ [BrowserClosed b] \<rparr>)"
  by (simp add: destroy_def cleanup_def split: option.splits)

lemma destroy_returns: "fst (destroy r w) = Inr ()"
  by (simp add: destroy_def cleanup_def split: option.splits)

lemma newWorld_idle: "idle (newWorld maxAge file now) \<and> \<not> memoryFresh (newWorld maxAge file now)"
  by (simp add: idle_def memoryFresh_def newWorld_def notAuthenticated_def)

text \<open>
  Claim C10. \<open>destroy\<close> never throws, whatever closing the browser does, and doing it twice
  changes nothing more. It resets the state in memory and clears the browser handle,
  closing the browser if one was held. The cache file is as it was, so \<open>loadCachedToken\<close>
  reads the same record, and a fresh authenticator started on that file at a time when the
  record is fresh returns its session material without a login.
\<close>

theorem destroy_keeps_cache_file:
  "fst (destroy r1 w) = Inr ()
   \<and> fst (destroy r2 (snd (destroy r1 w))) = Inr ()
   \<and> snd (destroy r2 (snd (destroy r1 w))) = snd (destroy r1 w)
   \<and> authState (snd (destroy r1 w)) = notAuthenticated
   \<and> a_browser (snd (destroy r1 w)) = None
   \<and> (\<forall>b. a_browser w = Some b
         \<longrightarrow> a_context (snd (destroy r1 w)) = None \<and> a_page (snd (destroy r1 w)) = None
             \<and> history (snd (destroy r1 w)) = history w @ [BrowserClosed b])
   \<and> tokenCacheFile (snd (destroy r1 w)) = tokenCacheFile w
   \<and> loadCachedToken (snd (destroy r1 w)) = loadCachedToken w
   \<and> (\<forall>c. tokenCacheFile w = Some c \<and> sessionFresh now (access_token c) (cachedExpiresAt c)
         \<longrightarrow> returnsCached (newWorld maxAge (tokenCacheFile (snd (destroy r1 w))) now) (access_token c))"
proof -
  have kept: "tokenCacheFile (snd (destroy r1 w)) = tokenCacheFile w"
    by (simp add: destroy_state split: option.splits)
  have reuse: "\<forall>c. tokenCacheFile w = Some c \<and> sessionFresh now (access_token c) (cachedExpiresAt c)
         \<longrightarrow> returnsCached (newWorld maxAge (tokenCacheFile (snd (destroy r1 w))) now) (access_token c)"
  proof (intro allI impI)
    fix c assume a: "tokenCacheFile w = Some c \<and> sessionFresh now (access_token c) (cachedExpiresAt c)"
    have "tokenCacheFile (newWorld maxAge (Some c) now) = Some c" "clock (newWorld maxAge (Some c) now) = now"
      by (simp_all add: newWorld_def)
    then have "returnsCached (newWorld maxAge (Some c) now) (access_token c)"
      using disk_hit[of "newWorld maxAge (Some c) now" c] newWorld_idle[of maxAge "Some c" now] a
      by simp
    then show "returnsCached (newWorld maxAge (tokenCacheFile (snd (destroy r1 w))) now) (access_token c)"
      using a by (simp add: kept)
  qed
  have twice: "snd (destroy r2 (snd (destroy r1 w))) = snd (destroy r1 w)"
    by (cases "a_browser w") (simp_all add: destroy_state)
  show ?thesis
    using reuse twice kept
    by (simp add: destroy_returns loadCachedToken_def) (simp add: destroy_state split: option.splits)
qed

lemma midLogin_fields:
  "a_browser midLogin = Some 7" "tokenCacheFile midLogin = Some savedSession" "history midLogin = [LoginStarted 0]"
  by (simp_all add: midLogin_def savedSession_def auth_defs launchLogin_def)

theorem destroy_keeps_cache_file_witness:
  "fst (destroy None midLogin) = Inr ()
   \<and> a_browser (snd (destroy None midLogin)) = None
   \<and> a_context (snd (destroy None midLogin)) = None
   \<and> history (snd (destroy None midLogin)) = [LoginStarted 0, BrowserClosed 7]
   \<and> tokenCacheFile (snd (destroy None midLogin)) = Some savedSession
   \<and> fst (destroy (Some (Error ''Target closed'')) (snd (destroy None midLogin))) = Inr ()
   \<and> returnsCached (newWorld 12 (tokenCacheFile (snd (destroy None midLogin))) 1700000000000) ''sid=1''"
proof -
  have f: "sessionFresh 1700000000000 (access_token savedSession) (cachedExpiresAt savedSession)"
    by (simp add: sessionFresh_def savedSession_def)
  have t: "access_token savedSession = ''sid=1''" by (simp add: savedSession_def)
  have kept: "tokenCacheFile (snd (destroy None midLogin)) = Some savedSession"
    using destroy_keeps_cache_file[of None midLogin None 0 0] midLogin_fields by simp
  have reuse: "returnsCached (newWorld 12 (tokenCacheFile (snd (destroy None midLogin))) 1700000000000) ''sid=1''"
    using destroy_keeps_cache_file[of None midLogin None 1700000000000 12] midLogin_fields(2) f t
    by metis
  show ?thesis
    using destroy_keeps_cache_file[of None midLogin "Some (Error ''Target closed'')" 1700000000000 12]
      midLogin_fields kept reuse
    by simp
qed

section \<open>Single flight\<close>

lemma run_append: "run (es @ fs) w = run fs (run es w)"
  by (induction es arbitrary: w) auto

lemma run_snoc: "run (es @ [e]) w = step e (run es w)"
  by (simp add: run_append)

lemma run_replicate_Suc: "run (replicate (Suc n) e) w = step e (run (replicate n e) w)"
proof -
  have "replicate (Suc n) e = replicate n e @ [e]" by (simp add: replicate_append_same)
  then show ?thesis by (simp only: run_snoc)
qed

lemma call_guard:
  assumes "authPromise w = Some p" and "p < length (promises w)" and "promises w ! p = Pending ws"
  shows "ensureAuthenticated w =
           w\<lparr> promises := (promises w)[p := Pending (ws @ [length (callers w)])],
              callers := callers w @ [AwaitGuard p] \<rparr>"
  using assms
  by (simp add: ensureAuthenticated_def settle_def awaitPromise_def Let_def)

lemma calls_wait:
  assumes "idle w" and "\<not> memoryFresh w" and "\<not> diskFresh w"
  shows "run (replicate (Suc k) Call) w = waiting w k"
proof (induction k)
  case 0
  have "ensureAuthenticated w =
           w\<lparr> authPromise := Some (length (promises w)),
              promises := promises w @ [Pending [length (callers w)]],
              callers := callers w @ [AwaitLogin (length (promises w))],
              history := history w @ [LoginStarted (length (promises w))] \<rparr>"
    using assms call_miss by (simp add: idle_def isTokenValid_fresh fromCache_fresh diskFresh_def)
  then show ?case by (simp add: waiting_def)
next
  case (Suc k)
  have "run (replicate (Suc (Suc k)) Call) w = step Call (run (replicate (Suc k) Call) w)"
    by (rule run_replicate_Suc)
  also have "\<dots> = ensureAuthenticated (waiting w k)" by (simp only: Suc step.simps)
  also have "\<dots> = waiting w (Suc k)"
  proof -
    have g: "authPromise (waiting w k) = Some (length (promises w))"
        "length (promises w) < length (promises (waiting w k))"
        "promises (waiting w k) ! length (promises w)
           = Pending [length (callers w) ..< length (callers w) + Suc k]"
      by (simp_all add: waiting_def)
    show ?thesis
      unfolding call_guard[OF g]
      by (simp add: waiting_def replicate_append_same)
  qed
  finally show ?case .
qed

lemma isTokenValid_microtasks: "isTokenValid (w\<lparr> microtasks := ms \<rparr>) = isTokenValid w"
  by (simp add: isTokenValid_def split: option.splits)

lemma resume_rejected_guards:
  assumes "promises v ! p = Rejected e" and "callers v = pre @ replicate m (AwaitGuard p)"
    and "microtasks v = [length pre ..< length pre + m]" and "j \<le> m"
  shows "run (replicate j Microtask) v =
           v\<lparr> callers := pre @ replicate j (Threw e) @ replicate (m - j) (AwaitGuard p),
              microtasks := [length pre + j ..< length pre + m] \<rparr>"
  using assms
proof (induction j arbitrary: v pre m)
  case 0
  then show ?case by simp
next
  case (Suc j)
  then obtain m' where m: "m = Suc m'" by (cases m) auto
  have ms: "microtasks v = length pre # [length (pre @ [Threw e]) ..< length (pre @ [Threw e]) + m']"
    using Suc.prems(3) by (simp add: m upt_conv_Cons)
  define v' where "v' = v\<lparr> microtasks := [length (pre @ [Threw e]) ..< length (pre @ [Threw e]) + m'],
                           callers := (pre @ [Threw e]) @ replicate m' (AwaitGuard p) \<rparr>"
  have st: "resume v = v'"
    using Suc.prems(1,2) ms
    by (simp add: resume_def settle_def v'_def Let_def nth_append m)
  have "run (replicate j Microtask) v'
          = v'\<lparr> callers := (pre @ [Threw e]) @ replicate j (Threw e) @ replicate (m' - j) (AwaitGuard p),
                 microtasks := [length (pre @ [Threw e]) + j ..< length (pre @ [Threw e]) + m'] \<rparr>"
    by (rule Suc.IH) (use Suc.prems(1,4) m in \<open>simp_all add: v'_def\<close>)
  then show ?case by (simp add: st v'_def m)
qed

lemma resume_fulfilled_guards:
  assumes "promises v ! p = Fulfilled" and "callers v = pre @ replicate m (AwaitGuard p)"
    and "microtasks v = [length pre ..< length pre + m]"
    and "isTokenValid v" and "token (authState v) = Some t" and "j \<le> m"
  shows "run (replicate j Microtask) v =
           v\<lparr> callers := pre @ replicate j (Returned t) @ replicate (m - j) (AwaitGuard p),
              microtasks := [length pre + j ..< length pre + m] \<rparr>"
  using assms
proof (induction j arbitrary: v pre m)
  case 0
  then show ?case by simp
next
  case (Suc j)
  then obtain m' where m: "m = Suc m'" by (cases m) auto
  have ms: "microtasks v = length pre # [length (pre @ [Returned t]) ..< length (pre @ [Returned t]) + m']"
    using Suc.prems(3) by (simp add: m upt_conv_Cons)
  define v' where "v' = v\<lparr> microtasks := [length (pre @ [Returned t]) ..< length (pre @ [Returned t]) + m'],
                           callers := (pre @ [Returned t]) @ replicate m' (AwaitGuard p) \<rparr>"
  have st: "resume v = v'"
    using Suc.prems(1,2,4,5) ms
    by (simp add: resume_def afterGuard_def settle_def v'_def Let_def nth_append m isTokenValid_microtasks)
  have "run (replicate j Microtask) v'
          = v'\<lparr> callers := (pre @ [Returned t]) @ replicate j (Returned t) @ replicate (m' - j) (AwaitGuard p),
                 microtasks := [length (pre @ [Returned t]) + j ..< length (pre @ [Returned t]) + m'] \<rparr>"
    by (rule Suc.IH)
       (use Suc.prems(1,4,5,6) m in \<open>simp_all add: v'_def isTokenValid_microtasks isTokenValid_callers\<close>)
  then show ?case by (simp add: st v'_def m)
qed

lemma cleanup_fields:
  "authState (snd (cleanup r w)) = authState w" "authPromise (snd (cleanup r w)) = authPromise w"
  "promises (snd (cleanup r w)) = promises w" "callers (snd (cleanup r w)) = callers w"
  "microtasks (snd (cleanup r w)) = microtasks w" "clock (snd (cleanup r w)) = clock w"
  "tokenCacheFile (snd (cleanup r w)) = tokenCacheFile w" "maxJwtAgeH (snd (cleanup r w)) = maxJwtAgeH w"
  "loginsStarted (snd (cleanup r w)) = loginsStarted w"
  by (simp_all add: cleanup_def loginsStarted_def split: option.splits)

lemma finishLogin_loginsStarted: "loginsStarted (finishLogin p outcome w) = loginsStarted w"
  by (auto simp: finishLogin_def loginsStarted_def cleanup_def Let_def
      split: promise.splits loginOutcome.splits option.splits)

lemma waiting_fields:
  "callers (waiting w k) = callers w @ AwaitLogin (length (promises w)) # replicate k (AwaitGuard (length (promises w)))"
  "promises (waiting w k) = promises w @ [Pending [length (callers w) ..< length (callers w) + Suc k]]"
  "microtasks (waiting w k) = microtasks w" "authPromise (waiting w k) = Some (length (promises w))"
  "clock (waiting w k) = clock w" "maxJwtAgeH (waiting w k) = maxJwtAgeH w"
  "loginsStarted (waiting w k) = loginsStarted w + 1"
  by (simp_all add: waiting_def loginsStarted_def)

lemma failed_login_resumes:
  assumes "idle w" and "\<not> memoryFresh w" and "\<not> diskFresh w" and "j \<le> k"
  shows "\<exists>u. run (replicate (Suc k) Call @ [LoginDone (length (promises w)) (LoginThrows e)]
                  @ replicate (Suc j) Microtask) w
              = u\<lparr> callers := callers w @ replicate (Suc j) (Threw (typedError e))
                               @ replicate (k - j) (AwaitGuard (length (promises w))),
                    microtasks := [Suc (length (callers w)) + j ..< Suc (length (callers w)) + k] \<rparr>
            \<and> promises u = promises w @ [Rejected (typedError e)]
            \<and> loginsStarted u = loginsStarted w + 1
            \<and> authPromise u = Some (length (promises w))
            \<and> authState u = notAuthenticated"
proof -
  let ?p = "length (promises w)" and ?i = "length (callers w)"
  define v where "v = finishLogin ?p (LoginThrows e) (waiting w k)"
  have m0: "microtasks w = []" using assms(1) by (simp add: idle_def)
  have v: "promises v = promises w @ [Rejected (typedError e)]"
      "callers v = callers w @ AwaitLogin ?p # replicate k (AwaitGuard ?p)"
      "microtasks v = ?i # [Suc ?i ..< Suc ?i + k]"
      "authPromise v = Some ?p" "authState v = notAuthenticated"
    by (simp_all add: v_def finishLogin_def waiting_fields cleanup_fields m0 Let_def upt_conv_Cons)
  have ls: "loginsStarted v = loginsStarted w + 1"
    by (simp add: v_def finishLogin_loginsStarted waiting_fields)
  define u where "u = v\<lparr> microtasks := [length (callers w @ [Threw (typedError e)])
                                           ..< length (callers w @ [Threw (typedError e)]) + k],
                          callers := (callers w @ [Threw (typedError e)]) @ replicate k (AwaitGuard ?p) \<rparr>"
  have r: "resume v = u"
    using v by (simp add: resume_def settle_def u_def Let_def nth_append)
  have uf: "promises u ! ?p = Rejected (typedError e)"
      "callers u = (callers w @ [Threw (typedError e)]) @ replicate k (AwaitGuard ?p)"
      "microtasks u = [length (callers w @ [Threw (typedError e)])
                        ..< length (callers w @ [Threw (typedError e)]) + k]"
    by (simp_all add: u_def v)
  have g: "run (replicate j Microtask) u
             = u\<lparr> callers := (callers w @ [Threw (typedError e)]) @ replicate j (Threw (typedError e))
                               @ replicate (k - j) (AwaitGuard ?p),
                   microtasks := [length (callers w @ [Threw (typedError e)]) + j
                                   ..< length (callers w @ [Threw (typedError e)]) + k] \<rparr>"
    by (rule resume_rejected_guards[OF uf assms(4)])
  have "run (replicate (Suc k) Call @ [LoginDone ?p (LoginThrows e)] @ replicate (Suc j) Microtask) w
          = run (replicate j Microtask) u"
    unfolding run_append calls_wait[OF assms(1,2,3)]
    using r by (simp add: v_def)
  then have "run (replicate (Suc k) Call @ [LoginDone ?p (LoginThrows e)] @ replicate (Suc j) Microtask) w
              = u\<lparr> callers := callers w @ replicate (Suc j) (Threw (typedError e))
                               @ replicate (k - j) (AwaitGuard ?p),
                    microtasks := [Suc ?i + j ..< Suc ?i + k] \<rparr>"
    using g by simp
  moreover have "promises u = promises w @ [Rejected (typedError e)]" "loginsStarted u = loginsStarted w + 1"
      "authPromise u = Some ?p" "authState u = notAuthenticated"
    using v ls by (simp_all add: u_def loginsStarted_def)
  ultimately show ?thesis by blast
qed

lemma good_login_resumes:
  assumes "idle w" and "\<not> memoryFresh w" and "\<not> diskFresh w" and "j \<le> k"
    and "cookieString cs \<noteq> []" and "1 \<le> maxJwtAgeH w"
  shows "\<exists>u. run (replicate (Suc k) Call @ [LoginDone (length (promises w)) (LoginCookies cs written)]
                  @ replicate (Suc j) Microtask) w
              = u\<lparr> callers := callers w @ replicate (Suc j) (Returned (cookieString cs))
                               @ replicate (k - j) (AwaitGuard (length (promises w))),
                    microtasks := [Suc (length (callers w)) + j ..< Suc (length (callers w)) + k] \<rparr>
            \<and> promises u = promises w @ [Fulfilled]
            \<and> loginsStarted u = loginsStarted w + 1
            \<and> authPromise u = None
            \<and> token (authState u) = Some (cookieString cs)"
proof -
  let ?p = "length (promises w)" and ?i = "length (callers w)" and ?t = "cookieString cs"
  define v where "v = finishLogin ?p (LoginCookies cs written) (waiting w k)"
  have m0: "microtasks w = []" using assms(1) by (simp add: idle_def)
  have v: "promises v = promises w @ [Fulfilled]"
      "callers v = callers w @ AwaitLogin ?p # replicate k (AwaitGuard ?p)"
      "microtasks v = ?i # [Suc ?i ..< Suc ?i + k]"
      "authState v = \<lparr> token = Some ?t, expiresAt = Some (int (clock w) + maxJwtAgeH w * 60 * 60 * 1000),
                        isAuthenticated = True \<rparr>"
      "clock v = clock w"
    by (simp_all add: v_def finishLogin_def waiting_fields cleanup_fields m0 Let_def upt_conv_Cons)
  have ls: "loginsStarted v = loginsStarted w + 1"
    by (simp add: v_def finishLogin_loginsStarted waiting_fields)
  have valid: "isTokenValid v"
    using assms(5,6) by (simp add: isTokenValid_def v bufferMs_def)
  define u where "u = v\<lparr> authPromise := None,
                          microtasks := [length (callers w @ [Returned ?t]) ..< length (callers w @ [Returned ?t]) + k],
                          callers := (callers w @ [Returned ?t]) @ replicate k (AwaitGuard ?p) \<rparr>"
  have r: "resume v = u"
    using v assms(5) by (simp add: resume_def afterLogin_def settle_def u_def Let_def nth_append)
  have uvalid: "isTokenValid u" using valid by (simp add: isTokenValid_def u_def split: option.splits)
  have uf: "promises u ! ?p = Fulfilled"
      "callers u = (callers w @ [Returned ?t]) @ replicate k (AwaitGuard ?p)"
      "microtasks u = [length (callers w @ [Returned ?t]) ..< length (callers w @ [Returned ?t]) + k]"
      "token (authState u) = Some ?t"
    by (simp_all add: u_def v)
  have g: "run (replicate j Microtask) u
             = u\<lparr> callers := (callers w @ [Returned ?t]) @ replicate j (Returned ?t)
                               @ replicate (k - j) (AwaitGuard ?p),
                   microtasks := [length (callers w @ [Returned ?t]) + j
                                   ..< length (callers w @ [Returned ?t]) + k] \<rparr>"
    by (rule resume_fulfilled_guards[OF uf(1) uf(2) uf(3) uvalid uf(4) assms(4)])
  have "run (replicate (Suc k) Call @ [LoginDone ?p (LoginCookies cs written)] @ replicate (Suc j) Microtask) w
          = run (replicate j Microtask) u"
    unfolding run_append calls_wait[OF assms(1,2,3)]
    using r by (simp add: v_def)
  then have "run (replicate (Suc k) Call @ [LoginDone ?p (LoginCookies cs written)] @ replicate (Suc j) Microtask) w
              = u\<lparr> callers := callers w @ replicate (Suc j) (Returned ?t)
                               @ replicate (k - j) (AwaitGuard ?p),
                    microtasks := [Suc ?i + j ..< Suc ?i + k] \<rparr>"
    using g by simp
  moreover have "promises u = promises w @ [Fulfilled]" "loginsStarted u = loginsStarted w + 1"
      "authPromise u = None" "token (authState u) = Some ?t"
    using v ls by (simp_all add: u_def loginsStarted_def)
  ultimately show ?thesis by blast
qed

lemma login_settled_promises:
  "promises (finishLogin (length (promises w)) outcome (waiting w k))
     = promises w @ [case outcome of LoginCookies cs written \<Rightarrow> Fulfilled
                      | LoginThrows e \<Rightarrow> Rejected (typedError e)]"
  by (simp add: finishLogin_def waiting_fields cleanup_fields Let_def split: loginOutcome.splits)

lemma calls_in_flight:
  assumes "idle w" and "\<not> memoryFresh w" and "\<not> diskFresh w" and "loginsInFlight w = 0"
  shows "loginsInFlight (run (replicate j Call) w) \<le> 1"
proof (cases j)
  case 0
  then show ?thesis using assms(4) by simp
next
  case (Suc j')
  then show ?thesis
    using assms(4) by (simp only: calls_wait[OF assms(1,2,3)]) (simp add: waiting_def loginsInFlight_def)
qed

lemma settled_in_flight:
  assumes "idle w" and "\<not> memoryFresh w" and "\<not> diskFresh w" and "loginsInFlight w = 0"
    and "usable w outcome" and "j \<le> Suc k"
  shows "loginsInFlight (run (replicate (Suc k) Call @ [LoginDone (length (promises w)) outcome]
                              @ replicate j Microtask) w) = 0"
proof (cases j)
  case 0
  have "run (replicate (Suc k) Call @ [LoginDone (length (promises w)) outcome]) w
          = finishLogin (length (promises w)) outcome (waiting w k)"
    unfolding run_append calls_wait[OF assms(1,2,3)] by simp
  then show ?thesis
    using assms(4) 0 by (simp add: login_settled_promises loginsInFlight_def split: loginOutcome.splits)
next
  case (Suc j')
  then have le: "j' \<le> k" using assms(6) by simp
  show ?thesis
  proof (cases outcome)
    case (LoginThrows e)
    obtain u where "run (replicate (Suc k) Call @ [LoginDone (length (promises w)) (LoginThrows e)]
                  @ replicate (Suc j') Microtask) w
              = u\<lparr> callers := callers w @ replicate (Suc j') (Threw (typedError e))
                               @ replicate (k - j') (AwaitGuard (length (promises w))),
                    microtasks := [Suc (length (callers w)) + j' ..< Suc (length (callers w)) + k] \<rparr>"
        "promises u = promises w @ [Rejected (typedError e)]"
      using failed_login_resumes[OF assms(1,2,3) le] by blast
    then show ?thesis using assms(4) by (simp add: LoginThrows Suc loginsInFlight_def)
  next
    case (LoginCookies cs written)
    then have ok: "cookieString cs \<noteq> []" "1 \<le> maxJwtAgeH w" using assms(5) by (simp_all add: usable_def)
    obtain u where "run (replicate (Suc k) Call @ [LoginDone (length (promises w)) (LoginCookies cs written)]
                  @ replicate (Suc j') Microtask) w
              = u\<lparr> callers := callers w @ replicate (Suc j') (Returned (cookieString cs))
                               @ replicate (k - j') (AwaitGuard (length (promises w))),
                    microtasks := [Suc (length (callers w)) + j' ..< Suc (length (callers w)) + k] \<rparr>"
        "promises u = promises w @ [Fulfilled]"
      using good_login_resumes[OF assms(1,2,3) le ok] by blast
    then show ?thesis using assms(4) by (simp add: LoginCookies Suc loginsInFlight_def)
  qed
qed

lemma shared_outcome:
  assumes "idle w" and "\<not> memoryFresh w" and "\<not> diskFresh w" and "usable w outcome"
  shows "callers (run (singleFlight w k outcome) w) = callers w @ replicate (Suc k) (sharedResult outcome)
       \<and> loginsStarted (run (singleFlight w k outcome) w) = loginsStarted w + 1"
proof (cases outcome)
  case (LoginThrows e)
  obtain u where "run (replicate (Suc k) Call @ [LoginDone (length (promises w)) (LoginThrows e)]
                  @ replicate (Suc k) Microtask) w
              = u\<lparr> callers := callers w @ replicate (Suc k) (Threw (typedError e))
                               @ replicate (k - k) (AwaitGuard (length (promises w))),
                    microtasks := [Suc (length (callers w)) + k ..< Suc (length (callers w)) + k] \<rparr>"
      "loginsStarted u = loginsStarted w + 1"
    using failed_login_resumes[OF assms(1,2,3), of k k] by blast
  then show ?thesis by (simp add: LoginThrows singleFlight_def sharedResult_def loginsStarted_def)
next
  case (LoginCookies cs written)
  then have ok: "cookieString cs \<noteq> []" "1 \<le> maxJwtAgeH w" using assms(4) by (simp_all add: usable_def)
  obtain u where "run (replicate (Suc k) Call @ [LoginDone (length (promises w)) (LoginCookies cs written)]
                  @ replicate (Suc k) Microtask) w
              = u\<lparr> callers := callers w @ replicate (Suc k) (Returned (cookieString cs))
                               @ replicate (k - k) (AwaitGuard (length (promises w))),
                    microtasks := [Suc (length (callers w)) + k ..< Suc (length (callers w)) + k] \<rparr>"
      "loginsStarted u = loginsStarted w + 1"
    using good_login_resumes[OF assms(1,2,3) _ ok, of k k] by blast
  then show ?thesis by (simp add: LoginCookies singleFlight_def sharedResult_def loginsStarted_def)
qed

text \<open>
  Single flight where it holds. On an authenticator with an empty handle, no login in
  flight and no fresh session in memory or in the file, \<open>k + 1\<close> calls are issued before
  any resolves; the one login they wait for fails, or ends with a cookie string that is
  not empty under a maximal session age of at least one hour; then the \<open>k + 1\<close>
  microtasks run. At every instant of this schedule at most one login is in flight,
  exactly one login has started at its end, and every call has settled the same way: all
  return the cookie string, or all throw the typed error of the login.
\<close>

theorem single_flight_when_login_settles:
  "idle w \<and> \<not> memoryFresh w \<and> \<not> diskFresh w \<and> loginsInFlight w = 0 \<and> usable w outcome
   \<longrightarrow> (\<forall>j \<le> Suc k. loginsInFlight (run (replicate j Call) w) \<le> 1)
       \<and> (\<forall>j \<le> Suc k. loginsInFlight
                 (run (replicate (Suc k) Call @ [LoginDone (length (promises w)) outcome]
                        @ replicate j Microtask) w) = 0)
       \<and> callers (run (singleFlight w k outcome) w) = callers w @ replicate (Suc k) (sharedResult outcome)
       \<and> loginsStarted (run (singleFlight w k outcome) w) = loginsStarted w + 1"
  using calls_in_flight settled_in_flight shared_outcome by blast

lemma coldStart_cold:
  "idle coldStart \<and> \<not> memoryFresh coldStart \<and> \<not> diskFresh coldStart \<and> loginsInFlight coldStart = 0
   \<and> usable coldStart (LoginCookies [sessionCookie ''1''] True)
   \<and> usable coldStart (LoginThrows missingCertificate)"
  by (simp add: idle_def memoryFresh_def diskFresh_def loginsInFlight_def usable_def coldStart_def
      newWorld_def notAuthenticated_def cookieString_def sessionCookie_def)

theorem single_flight_when_login_settles_witness:
  "callers (run (singleFlight coldStart 2 (LoginCookies [sessionCookie ''1''] True)) coldStart)
     = [Returned ''sid=1'', Returned ''sid=1'', Returned ''sid=1'']
   \<and> loginsStarted (run (singleFlight coldStart 2 (LoginCookies [sessionCookie ''1''] True)) coldStart) = 1
   \<and> callers (run (singleFlight coldStart 2 (LoginThrows missingCertificate)) coldStart)
     = [Threw missingCertificate, Threw missingCertificate, Threw missingCertificate]"
proof -
  have c: "callers coldStart = []" "loginsStarted coldStart = 0"
    by (simp_all add: coldStart_def newWorld_def loginsStarted_def)
  have r: "sharedResult (LoginCookies [sessionCookie ''1''] True) = Returned ''sid=1''"
      "sharedResult (LoginThrows missingCertificate) = Threw missingCertificate"
    by (simp_all add: sharedResult_def cookieString_def sessionCookie_def missingCertificate_def)
  show ?thesis
    using single_flight_when_login_settles[of coldStart "LoginCookies [sessionCookie ''1''] True" 2]
      single_flight_when_login_settles[of coldStart "LoginThrows missingCertificate" 2]
      coldStart_cold c r
    by (simp add: numeral_3_eq_3)
qed

lemma call_on_rejected:
  assumes "authPromise f = Some p" and "promises f ! p = Rejected e"
  shows "ensureAuthenticated f =
           f\<lparr> callers := callers f @ [AwaitGuard p], microtasks := microtasks f @ [length (callers f)] \<rparr>"
  using assms by (simp add: ensureAuthenticated_def awaitPromise_def settle_def Let_def)

lemma resume_on_rejected:
  assumes "promises f ! p = Rejected e"
  shows "resume (f\<lparr> callers := cs @ [AwaitGuard p], microtasks := [length cs] \<rparr>)
           = f\<lparr> callers := cs @ [Threw e], microtasks := [] \<rparr>"
  using assms by (simp add: resume_def settle_def Let_def)

text \<open>
  The stale handle, for every number of callers. After the login that \<open>k + 1\<close> calls
  waited for has failed, the state is cleared and every call has thrown the typed error,
  but \<open>authPromise\<close> still holds the rejected promise; a later call throws the same error
  and starts no login.
\<close>

theorem failed_login_poisons_later_calls:
  "idle w \<and> \<not> memoryFresh w \<and> \<not> diskFresh w
   \<longrightarrow> authState (run (singleFlight w k (LoginThrows e)) w) = notAuthenticated
       \<and> authPromise (run (singleFlight w k (LoginThrows e)) w) = Some (length (promises w))
       \<and> callers (run (singleFlight w k (LoginThrows e) @ [Call, Microtask]) w)
           = callers w @ replicate (Suc k) (Threw (typedError e)) @ [Threw (typedError e)]
       \<and> loginsStarted (run (singleFlight w k (LoginThrows e) @ [Call, Microtask]) w) = loginsStarted w + 1"
proof (intro impI)
  assume a: "idle w \<and> \<not> memoryFresh w \<and> \<not> diskFresh w"
  let ?p = "length (promises w)"
  obtain u where u: "run (replicate (Suc k) Call @ [LoginDone ?p (LoginThrows e)]
                  @ replicate (Suc k) Microtask) w
              = u\<lparr> callers := callers w @ replicate (Suc k) (Threw (typedError e))
                               @ replicate (k - k) (AwaitGuard ?p),
                    microtasks := [Suc (length (callers w)) + k ..< Suc (length (callers w)) + k] \<rparr>"
      "promises u = promises w @ [Rejected (typedError e)]"
      "loginsStarted u = loginsStarted w + 1"
      "authPromise u = Some ?p" "authState u = notAuthenticated"
    using failed_login_resumes[of w k k e] a by blast
  define f where "f = u\<lparr> callers := callers w @ replicate (Suc k) (Threw (typedError e)), microtasks := [] \<rparr>"
  have fin: "run (singleFlight w k (LoginThrows e)) w = f"
    using u(1) by (simp add: singleFlight_def f_def)
  have ff: "authPromise f = Some ?p" "authState f = notAuthenticated"
      "promises f = promises w @ [Rejected (typedError e)]"
      "callers f = callers w @ replicate (Suc k) (Threw (typedError e))" "microtasks f = []"
      "loginsStarted f = loginsStarted w + 1"
    using u by (simp_all add: f_def loginsStarted_def)
  have rej: "promises f ! ?p = Rejected (typedError e)" by (simp add: ff(3))
  have call: "ensureAuthenticated f =
        f\<lparr> callers := callers f @ [AwaitGuard ?p], microtasks := [length (callers f)] \<rparr>"
    using call_on_rejected[OF ff(1) rej] by (simp add: ff(5))
  have res: "resume (f\<lparr> callers := callers f @ [AwaitGuard ?p], microtasks := [length (callers f)] \<rparr>)
        = f\<lparr> callers := callers f @ [Threw (typedError e)], microtasks := [] \<rparr>"
    by (rule resume_on_rejected[OF rej])
  have "run (singleFlight w k (LoginThrows e) @ [Call, Microtask]) w
          = f\<lparr> callers := callers f @ [Threw (typedError e)], microtasks := [] \<rparr>"
    by (simp add: run_append fin call res)
  then show "authState (run (singleFlight w k (LoginThrows e)) w) = notAuthenticated
       \<and> authPromise (run (singleFlight w k (LoginThrows e)) w) = Some (length (promises w))
       \<and> callers (run (singleFlight w k (LoginThrows e) @ [Call, Microtask]) w)
           = callers w @ replicate (Suc k) (Threw (typedError e)) @ [Threw (typedError e)]
       \<and> loginsStarted (run (singleFlight w k (LoginThrows e) @ [Call, Microtask]) w) = loginsStarted w + 1"
    using ff by (simp add: fin loginsStarted_def)
qed

theorem failed_login_poisons_later_calls_witness:
  "authPromise (run (singleFlight coldStart 0 (LoginThrows missingCertificate)) coldStart) = Some 0
   \<and> callers (run (singleFlight coldStart 0 (LoginThrows missingCertificate) @ [Call, Microtask]) coldStart)
       = [Threw missingCertificate, Threw missingCertificate]
   \<and> loginsStarted (run (singleFlight coldStart 0 (LoginThrows missingCertificate) @ [Call, Microtask]) coldStart)
       = 1"
proof -
  have c: "callers coldStart = []" "loginsStarted coldStart = 0" "promises coldStart = []"
    by (simp_all add: coldStart_def newWorld_def loginsStarted_def)
  have t: "typedError missingCertificate = missingCertificate" by (simp add: missingCertificate_def)
  show ?thesis
    using failed_login_poisons_later_calls[of coldStart 0 missingCertificate] coldStart_cold c t
    by simp
qed

section \<open>Further properties of retrieval\<close>

text \<open>
  When the browser-driven strategy yields no note and the plain request to the raw endpoint
  yields one, \<open>getNote\<close> returns it and makes no request to a legacy endpoint.
\<close>

theorem getNote_raw_strategy_stops_chain:
  "(\<forall>n. playwrightNote env noteId tok \<noteq> Inr (Some n)) \<and> rawHttpStrategy env noteId tok = Inr (Some note)
   \<longrightarrow> getNote env noteId tok =
         (Inr (Some note), [Playwright noteId, HttpGet (rawNotesUrl @ rawEndpoint noteId)])"
  by (auto simp: getNote_def getNoteStrategies_def split: sum.splits option.splits)

lemma redirectEnv_raw: "rawHttpStrategy redirectEnv ''2744792'' ''sid=1'' = Inr (Some (redirectNote ''2744792''))"
  by code_simp

theorem getNote_raw_strategy_stops_chain_witness:
  "getNote redirectEnv ''2744792'' ''sid=1'' =
     (Inr (Some (redirectNote ''2744792'')),
      [Playwright ''2744792'', HttpGet (rawNotesUrl @ rawEndpoint ''2744792'')])"
proof -
  have p: "\<forall>n. playwrightNote redirectEnv ''2744792'' ''sid=1'' \<noteq> Inr (Some n)"
    by (simp add: redirectEnv_def)
  show ?thesis
    using getNote_raw_strategy_stops_chain[of redirectEnv "''2744792''" "''sid=1''" "redirectNote ''2744792''"]
      p redirectEnv_raw
    by blast
qed

text \<open>
  Every call of \<open>getCoveoToken\<close>, whatever it returns or throws, leaves a client that holds
  no context without a browser, if it was given one.
\<close>

theorem getCoveoToken_keeps_invariant:
  "clientInv c \<longrightarrow> clientInv (fst (snd (getCoveoToken env tok c)))"
  using getCoveoToken_inv by blast

theorem getCoveoToken_keeps_invariant_witness:
  "clientInv newClient \<and> clientInv (fst (snd (getCoveoToken workingTokenEnv ''sid=1'' newClient)))"
  using getCoveoToken_keeps_invariant[of newClient workingTokenEnv "''sid=1''"] newClient_inv by blast

end
